theory Spec2Isabelle
  imports Complex_Main
begin

section \<open>Data model (frontend/src/types)\<close>

text \<open>
  A JavaScript \<open>number\<close> is an IEEE 754 binary64 value: not-a-number, an infinity with
  its sign, or a finite value given by its sign and its magnitude (a non-negative
  rational; the sign of a zero is kept). Strings are lists of 8-bit characters, so
  \<open>length\<close> is the \<open>.length\<close> of a string whose code units are below 256.
\<close>

datatype number = NaN | Infinity bool | Finite bool rat

record CurrentWeather =
  city_name :: string
  country :: string
  temperature :: number
  feels_like :: number
  description :: string
  icon :: string
  humidity :: number
  wind_speed :: number
  pressure :: number
  temp_min :: number
  temp_max :: number

record ForecastItem =
  fc_date :: string
  fc_day_of_week :: string
  fc_temp_min :: number
  fc_temp_max :: number
  fc_description :: string
  fc_icon :: string
  fc_humidity :: number
  fc_wind_speed :: number

record Forecast =
  f_city_name :: string
  f_country :: string
  forecast_items :: "ForecastItem list"

record CitySearchResult =
  cs_name :: string
  cs_country :: string
  cs_state :: "string option"
  cs_lat :: number
  cs_lon :: number

text \<open>
  \<open>FavoriteCity\<close>: the fields \<open>name\<close>, \<open>country\<close>, \<open>id\<close> of the interface, prefixed
  because record fields are global constants (\<open>id\<close> is the identity function of HOL).
\<close>

record FavoriteCity =
  fav_name :: string
  fav_country :: string
  fav_id :: string

text \<open>The code of a character, and the decimal digits.\<close>

definition code_unit :: "char \<Rightarrow> nat" where
  "code_unit c = of_char c"

definition is_digit :: "char \<Rightarrow> bool" where
  "is_digit c = (48 \<le> code_unit c \<and> code_unit c \<le> 57)"

section \<open>Numbers (IEEE 754 binary64 arithmetic)\<close>

text \<open>The power of two with an integer exponent.\<close>

definition pow2 :: "int \<Rightarrow> rat" where
  "pow2 e = (if 0 \<le> e then 2 ^ nat e else 1 / 2 ^ nat (- e))"

text \<open>The number of binary digits of a positive integer.\<close>

function bit_length :: "int \<Rightarrow> int" where
  "bit_length n = (if n \<le> 0 then 0 else 1 + bit_length (n div 2))"
  by pat_completeness auto
termination
  by (relation "measure nat") auto

declare bit_length.simps [simp del]

text \<open>
  For a positive rational \<open>m = p / q\<close> in lowest terms, the exponent \<open>k\<close> with
  \<open>2^k \<le> m < 2^(k+1)\<close>: the difference of the bit lengths, or one less.
\<close>

definition floor_log2 :: "rat \<Rightarrow> int" where
  "floor_log2 m =
     (let (p, q) = quotient_of m;
          l = bit_length p - bit_length q
      in if pow2 l \<le> m then l else l - 1)"

text \<open>Rounding to the nearest integer, a tie to the even one.\<close>

definition round_half_even :: "rat \<Rightarrow> int" where
  "round_half_even x =
     (let n = \<lfloor>x\<rfloor>; r = x - of_int n
      in if r < 1 / 2 then n else if 1 / 2 < r then n + 1 else if even n then n else n + 1)"

text \<open>
  Rounding of an exact magnitude to binary64, to nearest with ties to even: 53
  significant bits, the exponent of the last bit not below \<open>-1074\<close> (the subnormal
  numbers), and overflow (\<open>None\<close>) when the rounded value reaches \<open>2^1024\<close>.
\<close>

definition nearest_double :: "rat \<Rightarrow> rat" where
  "nearest_double m =
     (if m = 0 then 0
      else let e = max (floor_log2 m - 52) (- 1074)
           in of_int (round_half_even (m / pow2 e)) * pow2 e)"

definition round_magnitude :: "rat \<Rightarrow> rat option" where
  "round_magnitude m = (let r = nearest_double m in if pow2 1024 \<le> r then None else Some r)"

definition make_number :: "bool \<Rightarrow> rat \<Rightarrow> number" where
  "make_number neg m = (case round_magnitude m of None \<Rightarrow> Infinity neg | Some r \<Rightarrow> Finite neg r)"

definition signed :: "bool \<Rightarrow> rat \<Rightarrow> rat" where
  "signed neg m = (if neg then - m else m)"

text \<open>
  The operators \<open>*\<close>, \<open>/\<close>, \<open>+\<close> and \<open>-\<close> of JavaScript on numbers: the exact result,
  rounded; the sign of a product or quotient is the exclusive or of the signs.
\<close>

fun num_mul :: "number \<Rightarrow> number \<Rightarrow> number" where
  "num_mul NaN y = NaN"
| "num_mul x NaN = NaN"
| "num_mul (Infinity a) (Infinity b) = Infinity (a \<noteq> b)"
| "num_mul (Infinity a) (Finite b n) = (if n = 0 then NaN else Infinity (a \<noteq> b))"
| "num_mul (Finite a m) (Infinity b) = (if m = 0 then NaN else Infinity (a \<noteq> b))"
| "num_mul (Finite a m) (Finite b n) = make_number (a \<noteq> b) (m * n)"

fun num_div :: "number \<Rightarrow> number \<Rightarrow> number" where
  "num_div NaN y = NaN"
| "num_div x NaN = NaN"
| "num_div (Infinity a) (Infinity b) = NaN"
| "num_div (Infinity a) (Finite b n) = Infinity (a \<noteq> b)"
| "num_div (Finite a m) (Infinity b) = Finite (a \<noteq> b) 0"
| "num_div (Finite a m) (Finite b n) =
     (if n = 0 then (if m = 0 then NaN else Infinity (a \<noteq> b))
      else make_number (a \<noteq> b) (m / n))"

fun num_add :: "number \<Rightarrow> number \<Rightarrow> number" where
  "num_add NaN y = NaN"
| "num_add x NaN = NaN"
| "num_add (Infinity a) (Infinity b) = (if a = b then Infinity a else NaN)"
| "num_add (Infinity a) (Finite b n) = Infinity a"
| "num_add (Finite a m) (Infinity b) = Infinity b"
| "num_add (Finite a m) (Finite b n) =
     (let x = signed a m + signed b n
      in if x = 0 then Finite (a \<and> b) 0 else make_number (x < 0) \<bar>x\<bar>)"

fun num_neg :: "number \<Rightarrow> number" where
  "num_neg NaN = NaN"
| "num_neg (Infinity a) = Infinity (\<not> a)"
| "num_neg (Finite a m) = Finite (\<not> a) m"

definition num_sub :: "number \<Rightarrow> number \<Rightarrow> number" where
  "num_sub x y = num_add x (num_neg y)"

text \<open>
  The two constants of the rounding error: half the spacing of the numbers relative
  to their size, and half the spacing of the subnormal numbers.
\<close>

definition unit_roundoff :: rat where
  "unit_roundoff = 1 / 2 ^ 53"

definition tiny :: rat where
  "tiny = 1 / 2 ^ 1075"

section \<open>Display of temperatures (components/WeatherCard, components/ForecastCard)\<close>

text \<open>
  Both components define the same two functions:
  \<^verbatim>\<open>
  function convertToFahrenheit(celsius: number): number {
    return (celsius * 9) / 5 + 32;
  }
  const displayTemp = (temp: number) => {
    return unit === 'F' ? convertToFahrenheit(temp) : temp;
  };
  \<close>
\<close>

datatype TemperatureUnit = C | F

definition convertToFahrenheit :: "number \<Rightarrow> number" where
  "convertToFahrenheit celsius =
     num_add (num_div (num_mul celsius (Finite False 9)) (Finite False 5)) (Finite False 32)"

definition displayTemp :: "TemperatureUnit \<Rightarrow> number \<Rightarrow> number" where
  "displayTemp unit temp = (if unit = F then convertToFahrenheit temp else temp)"

text \<open>
  Modelled from the spec: the repository has no conversion from Fahrenheit to Celsius;
  the round trip of the specification applies "the inverse of the affine map", taken
  here in the shape of the source's own formula.
\<close>

definition convertToCelsius :: "number \<Rightarrow> number" where
  "convertToCelsius fahrenheit =
     num_div (num_mul (num_sub fahrenheit (Finite False 32)) (Finite False 5)) (Finite False 9)"

section \<open>The state of App\<close>

text \<open>
  \<^verbatim>\<open>
  const [currentWeather, setCurrentWeather] = useState<CurrentWeather | null>(null);
  const [forecast, setForecast] = useState<Forecast | null>(null);
  const [loading, setLoading] = useState(false);
  const [error, setError] = useState<string | null>(null);
  const [unit, setUnit] = useState<TemperatureUnit>('C');
  \<close>
\<close>

record app_state =
  currentWeather :: "CurrentWeather option"
  forecast :: "Forecast option"
  loading :: bool
  error :: "string option"
  unit :: TemperatureUnit

definition initial_app_state :: app_state where
  "initial_app_state =
     \<lparr>currentWeather = None, forecast = None, loading = False, error = None, unit = C\<rparr>"

text \<open>\<open>onUnitToggle={() => setUnit(unit === 'C' ? 'F' : 'C')}\<close>\<close>

definition onUnitToggle :: "app_state \<Rightarrow> app_state" where
  "onUnitToggle s = s\<lparr>unit := (if unit s = C then F else C)\<rparr>"

text \<open>
  What the two cards show of the stored data: every temperature goes through
  \<open>displayTemp\<close> before \<open>Math.round\<close> (the weather card: temperature, feels like,
  high and low; the forecast card: maximum and minimum of each item, in the order of
  the list).
\<close>

definition card_temperatures :: "TemperatureUnit \<Rightarrow> CurrentWeather \<Rightarrow> number list" where
  "card_temperatures u w =
     [displayTemp u (temperature w), displayTemp u (feels_like w),
      displayTemp u (temp_max w), displayTemp u (temp_min w)]"

definition forecast_temperatures :: "TemperatureUnit \<Rightarrow> ForecastItem list \<Rightarrow> (number \<times> number) list" where
  "forecast_temperatures u fc =
     map (\<lambda>item. (displayTemp u (fc_temp_max item), displayTemp u (fc_temp_min item))) fc"

section \<open>API client (services/api)\<close>

text \<open>
  The client is \<open>axios.create({ baseURL, timeout: 10000, ... })\<close>. What the network
  does with a request is the input of the model: a response with its status and body
  after some milliseconds, a failure of the connection, or no answer at all. The body
  of a response is the data of the endpoint, or an error body \<open>{ "detail": ... }\<close>, or
  a body without a detail.
\<close>

datatype 'a body = Data 'a | Detail string | No_detail

record 'a http_response =
  status :: nat
  body :: "'a body"

datatype 'a network = Responds nat "'a http_response" | Connection_fails | Never_answers

text \<open>
  The error axios rejects with (\<open>AxiosError\<close>): its \<open>code\<close>, its \<open>message\<close> and, when
  a response arrived, the \<open>response\<close> with its status and data.
\<close>

record 'a axios_error =
  code :: "string option"
  message :: string
  response :: "'a http_response option"

definition timeout :: nat where
  "timeout = 10000"

fun string_of_nat :: "nat \<Rightarrow> string" where
  "string_of_nat n =
     (if n < 10 then [char_of (48 + n)] else string_of_nat (n div 10) @ [char_of (48 + n mod 10)])"

text \<open>
  The default \<open>validateStatus\<close> of axios accepts the statuses from 200 to 299. Any other
  response rejects with the response attached, the code chosen by the class of the
  status. A request that is not answered within the timeout is aborted with the code
  \<open>ECONNABORTED\<close>; a failed connection rejects with \<open>ERR_NETWORK\<close>. Neither of these
  two has a response.
\<close>

definition validateStatus :: "nat \<Rightarrow> bool" where
  "validateStatus st = (200 \<le> st \<and> st < 300)"

definition status_code :: "nat \<Rightarrow> string option" where
  "status_code st =
     (if st div 100 = 4 then Some ''ERR_BAD_REQUEST''
      else if st div 100 = 5 then Some ''ERR_BAD_RESPONSE'' else None)"

definition timeout_error :: "'a axios_error" where
  "timeout_error =
     \<lparr>code = Some ''ECONNABORTED'',
      message = ''timeout of '' @ string_of_nat timeout @ ''ms exceeded'', response = None\<rparr>"

definition network_error :: "'a axios_error" where
  "network_error = \<lparr>code = Some ''ERR_NETWORK'', message = ''Network Error'', response = None\<rparr>"

definition status_error :: "'a http_response \<Rightarrow> 'a axios_error" where
  "status_error r =
     \<lparr>code = status_code (status r),
      message = ''Request failed with status code '' @ string_of_nat (status r),
      response = Some r\<rparr>"

text \<open>
  \<open>apiClient.get(url)\<close> followed by \<open>return response.data\<close>. The body of a response with
  an accepted status is returned as it is, cast to the type the caller expects.
\<close>

definition apiClient_get :: "'a network \<Rightarrow> 'a axios_error + 'a body" where
  "apiClient_get net =
     (case net of
        Never_answers \<Rightarrow> Inl timeout_error
      | Connection_fails \<Rightarrow> Inl network_error
      | Responds ms r \<Rightarrow>
          if timeout < ms then Inl timeout_error
          else if validateStatus (status r) then Inr (body r)
          else Inl (status_error r))"

text \<open>
  \<open>encodeURIComponent\<close>: letters, digits and \<open>- _ . ! ~ * ' ( )\<close> stay, every other
  code unit becomes the \<open>%XX\<close> of its UTF-8 bytes (two bytes from 128 on).
\<close>

definition unreserved :: "char \<Rightarrow> bool" where
  "unreserved c =
     ((65 \<le> code_unit c \<and> code_unit c \<le> 90) \<or> (97 \<le> code_unit c \<and> code_unit c \<le> 122)
      \<or> is_digit c \<or> c \<in> set ''-_.!~*'()'')"

definition upper_hex_digit :: "nat \<Rightarrow> char" where
  "upper_hex_digit n = (if n < 10 then char_of (48 + n) else char_of (55 + n))"

definition percent_byte :: "nat \<Rightarrow> string" where
  "percent_byte b = [CHR ''%'', upper_hex_digit (b div 16), upper_hex_digit (b mod 16)]"

definition encode_unit :: "char \<Rightarrow> string" where
  "encode_unit c =
     (if unreserved c then [c]
      else if code_unit c < 128 then percent_byte (code_unit c)
      else percent_byte (192 + code_unit c div 64) @ percent_byte (128 + code_unit c mod 64))"

definition encodeURIComponent :: "string \<Rightarrow> string" where
  "encodeURIComponent s = concat (map encode_unit s)"

text \<open>
  The three operations. Each one builds its request, awaits \<open>apiClient.get\<close> and
  returns \<open>response.data\<close>; none of them catches anything. The network is a function
  from the request (path and query parameters) to what happens to it.
\<close>

record request =
  path :: string
  params :: "(string \<times> string) list"

definition getCurrentWeather :: "(request \<Rightarrow> 'a network) \<Rightarrow> string \<Rightarrow> 'a axios_error + 'a body" where
  "getCurrentWeather net city =
     apiClient_get (net \<lparr>path = ''/api/weather/'' @ encodeURIComponent city, params = []\<rparr>)"

definition getForecast :: "(request \<Rightarrow> 'a network) \<Rightarrow> string \<Rightarrow> 'a axios_error + 'a body" where
  "getForecast net city =
     apiClient_get (net \<lparr>path = ''/api/weather/'' @ encodeURIComponent city @ ''/forecast'', params = []\<rparr>)"

definition searchCities :: "(request \<Rightarrow> 'a network) \<Rightarrow> string \<Rightarrow> 'a axios_error + 'a body" where
  "searchCities net query =
     apiClient_get (net \<lparr>path = ''/api/cities/search'', params = [(''q'', query)]\<rparr>)"

text \<open>The two kinds of failure the specification names, read off the error of axios.\<close>

definition is_timeout :: "'a axios_error \<Rightarrow> bool" where
  "is_timeout e = (code e = Some ''ECONNABORTED'')"

definition upstream_status :: "'a axios_error \<Rightarrow> nat option" where
  "upstream_status e = map_option status (response e)"

definition upstream_detail :: "'a axios_error \<Rightarrow> string option" where
  "upstream_detail e =
     (case response e of
        None \<Rightarrow> None
      | Some r \<Rightarrow> (case body r of Detail d \<Rightarrow> Some d | _ \<Rightarrow> None))"

section \<open>Favorites store (hooks/useFavorites): the state updaters\<close>

text \<open>
  A state updater is given the previous array and returns either that very array
  (\<open>return prev\<close>: the same object) or a newly allocated one (\<open>[...prev, city]\<close>,
  \<open>prev.filter(...)\<close>). React compares the two with \<open>Object.is\<close>, so the model keeps
  the difference.
\<close>

datatype 'a next_state = Same_object | New_object 'a

definition next_value :: "'a \<Rightarrow> 'a next_state \<Rightarrow> 'a" where
  "next_value prev r = (case r of Same_object \<Rightarrow> prev | New_object v \<Rightarrow> v)"

text \<open>\<open>prev.some((f) => f.id === city.id)\<close>\<close>

definition has_id :: "string \<Rightarrow> FavoriteCity list \<Rightarrow> bool" where
  "has_id i fs = list_ex (\<lambda>f. fav_id f = i) fs"

text \<open>
  \<^verbatim>\<open>
  setFavorites((prev) => {
    if (prev.some((f) => f.id === city.id)) return prev;
    return [...prev, city];
  });
  \<close>
\<close>

definition addFavorite_updater :: "FavoriteCity \<Rightarrow> FavoriteCity list \<Rightarrow> FavoriteCity list next_state" where
  "addFavorite_updater city prev =
     (if has_id (fav_id city) prev then Same_object else New_object (prev @ [city]))"

text \<open>\<open>setFavorites((prev) => prev.filter((f) => f.id !== id))\<close>\<close>

definition removeFavorite_updater :: "string \<Rightarrow> FavoriteCity list \<Rightarrow> FavoriteCity list next_state" where
  "removeFavorite_updater i prev = New_object (filter (\<lambda>f. fav_id f \<noteq> i) prev)"

definition addFavorite :: "FavoriteCity \<Rightarrow> FavoriteCity list \<Rightarrow> FavoriteCity list" where
  "addFavorite city prev = next_value prev (addFavorite_updater city prev)"

definition removeFavorite :: "string \<Rightarrow> FavoriteCity list \<Rightarrow> FavoriteCity list" where
  "removeFavorite i prev = next_value prev (removeFavorite_updater i prev)"

text \<open>\<open>favorites.some((f) => f.id === id)\<close>\<close>

definition isFavorite :: "FavoriteCity list \<Rightarrow> string \<Rightarrow> bool" where
  "isFavorite favorites i = has_id i favorites"

subsection \<open>The favorite toggle of the weather card (components/WeatherCard)\<close>

text \<open>\<open>const favoriteId = `${weather.city_name}-${weather.country}`\<close>\<close>

definition favoriteId :: "'a CurrentWeather_scheme \<Rightarrow> string" where
  "favoriteId weather = city_name weather @ ''-'' @ country weather"

text \<open>
  \<^verbatim>\<open>
  if (isFav) { removeFavorite(favoriteId); }
  else { addFavorite({ id: favoriteId, name: weather.city_name, country: weather.country }); }
  \<close>
\<close>

definition favorite_of :: "'a CurrentWeather_scheme \<Rightarrow> FavoriteCity" where
  "favorite_of weather =
     \<lparr>fav_name = city_name weather, fav_country = country weather, fav_id = favoriteId weather\<rparr>"

definition handleFavoriteToggle_updater ::
  "'a CurrentWeather_scheme \<Rightarrow> FavoriteCity list \<Rightarrow> FavoriteCity list next_state" where
  "handleFavoriteToggle_updater weather favorites =
     (if isFavorite favorites (favoriteId weather)
      then removeFavorite_updater (favoriteId weather) favorites
      else addFavorite_updater (favorite_of weather) favorites)"

definition handleFavoriteToggle :: "'a CurrentWeather_scheme \<Rightarrow> FavoriteCity list \<Rightarrow> FavoriteCity list" where
  "handleFavoriteToggle weather favorites =
     next_value favorites (handleFavoriteToggle_updater weather favorites)"

text \<open>
  The operations a user can perform on one store: the toggle of the weather card for
  the weather on display, the remove button of the favorites list, and the two
  operations of the hook called directly.
\<close>

datatype store_op =
    Toggle string string
  | Add FavoriteCity
  | Remove string

definition weather_of :: "string \<Rightarrow> string \<Rightarrow> CurrentWeather" where
  "weather_of n c =
     \<lparr>city_name = n, country = c, temperature = Finite False 0, feels_like = Finite False 0,
      description = [], icon = [], humidity = Finite False 0, wind_speed = Finite False 0,
      pressure = Finite False 0, temp_min = Finite False 0, temp_max = Finite False 0\<rparr>"

fun apply_store_op :: "store_op \<Rightarrow> FavoriteCity list \<Rightarrow> FavoriteCity list" where
  "apply_store_op (Toggle n c) fs = handleFavoriteToggle (weather_of n c) fs"
| "apply_store_op (Add city) fs = addFavorite city fs"
| "apply_store_op (Remove i) fs = removeFavorite i fs"

fun run_store_ops :: "store_op list \<Rightarrow> FavoriteCity list \<Rightarrow> FavoriteCity list" where
  "run_store_ops [] fs = fs"
| "run_store_ops (x # xs) fs = run_store_ops xs (apply_store_op x fs)"

definition unique_ids :: "FavoriteCity list \<Rightarrow> bool" where
  "unique_ids fs = distinct (map fav_id fs)"

text \<open>
  The id of a favorite is \<open>name-country\<close>. The operations of the user interface are
  the toggle and the remove button; \<open>Add\<close> is the operation of the hook with any
  record a caller passes.
\<close>

definition derived_id :: "FavoriteCity \<Rightarrow> bool" where
  "derived_id f = (fav_id f = fav_name f @ ''-'' @ fav_country f)"

fun ui_op :: "store_op \<Rightarrow> bool" where
  "ui_op (Add city) = False"
| "ui_op x = True"

text \<open>The number of entries of the list that carry the id \<open>i\<close>.\<close>

definition count_id :: "string \<Rightarrow> FavoriteCity list \<Rightarrow> nat" where
  "count_id i fs = length (filter (\<lambda>f. fav_id f = i) fs)"

section \<open>JSON text (the library functions \<open>JSON.parse\<close> and \<open>JSON.stringify\<close>)\<close>

text \<open>
  The values \<open>JSON.parse\<close> returns. A number is kept as its source text (its value
  is a function of that text), an object as its members in the order of the text.
\<close>

datatype json =
    JNull
  | JBool bool
  | JNumber string
  | JString string
  | JArray "json list"
  | JObject "(string \<times> json) list"

text \<open>
  \<open>JSON.parse\<close> throws a \<open>SyntaxError\<close> on a text that is not JSON. A \<open>\u\<close> escape
  above \<open>00FF\<close> denotes a code unit that the 8-bit characters of this model do not
  have; the model reports it apart and no statement below is about such a text.
\<close>

datatype parse_error = SyntaxError | Wide_code_unit

datatype token =
    TLBrace | TRBrace | TLBracket | TRBracket | TColon | TComma
  | TString string | TNumber string | TTrue | TFalse | TNull

text \<open>
  The number grammar of JSON as an automaton:
  \<open>-? (0 | [1-9][0-9]*) (. [0-9]+)? ([eE] [+-]? [0-9]+)?\<close>
\<close>

datatype num_state = N_start | N_minus | N_zero | N_int | N_point | N_frac | N_e | N_esign | N_exp | N_bad

fun num_step :: "num_state \<Rightarrow> char \<Rightarrow> num_state" where
  "num_step N_start c =
     (if c = CHR ''-'' then N_minus else if c = CHR ''0'' then N_zero
      else if is_digit c then N_int else N_bad)"
| "num_step N_minus c =
     (if c = CHR ''0'' then N_zero else if is_digit c then N_int else N_bad)"
| "num_step N_zero c =
     (if c = CHR ''.'' then N_point else if c = CHR ''e'' \<or> c = CHR ''E'' then N_e else N_bad)"
| "num_step N_int c =
     (if is_digit c then N_int else if c = CHR ''.'' then N_point
      else if c = CHR ''e'' \<or> c = CHR ''E'' then N_e else N_bad)"
| "num_step N_point c = (if is_digit c then N_frac else N_bad)"
| "num_step N_frac c =
     (if is_digit c then N_frac else if c = CHR ''e'' \<or> c = CHR ''E'' then N_e else N_bad)"
| "num_step N_e c =
     (if c = CHR ''+'' \<or> c = CHR ''-'' then N_esign else if is_digit c then N_exp else N_bad)"
| "num_step N_esign c = (if is_digit c then N_exp else N_bad)"
| "num_step N_exp c = (if is_digit c then N_exp else N_bad)"
| "num_step N_bad c = N_bad"

definition is_json_number :: "string \<Rightarrow> bool" where
  "is_json_number s = (foldl num_step N_start s \<in> {N_zero, N_int, N_frac, N_exp})"

definition hex_value :: "char \<Rightarrow> nat option" where
  "hex_value c =
     (if is_digit c then Some (code_unit c - 48)
      else if 97 \<le> code_unit c \<and> code_unit c \<le> 102 then Some (code_unit c - 87)
      else if 65 \<le> code_unit c \<and> code_unit c \<le> 70 then Some (code_unit c - 55)
      else None)"

text \<open>
  The lexer reads one character at a time. Its mode says what it is inside of: nothing,
  a string (with the characters read so far, latest first), an escape, the hex digits
  of a \<open>\u\<close> escape, a number, or one of the words \<open>true\<close>, \<open>false\<close>, \<open>null\<close>.
\<close>

datatype lex_mode =
    L_start
  | L_string string
  | L_escape string
  | L_unicode string "nat list"
  | L_number string
  | L_word string

definition is_space :: "char \<Rightarrow> bool" where
  "is_space c = (c = CHR 0x09 \<or> c = CHR 0x0A \<or> c = CHR 0x0D \<or> c = CHR 0x20)"

definition number_char :: "char \<Rightarrow> bool" where
  "number_char c = (is_digit c \<or> c = CHR ''+'' \<or> c = CHR ''-'' \<or> c = CHR ''.'' \<or> c = CHR ''e'' \<or> c = CHR ''E'')"

definition word_char :: "char \<Rightarrow> bool" where
  "word_char c = (97 \<le> code_unit c \<and> code_unit c \<le> 122)"

definition word_token :: "string \<Rightarrow> token option" where
  "word_token w =
     (if w = ''true'' then Some TTrue else if w = ''false'' then Some TFalse
      else if w = ''null'' then Some TNull else None)"

definition escape_char :: "char \<Rightarrow> char option" where
  "escape_char c =
     (if c = CHR 0x22 then Some (CHR 0x22)
      else if c = CHR 0x5C then Some (CHR 0x5C)
      else if c = CHR ''/'' then Some (CHR ''/'')
      else if c = CHR ''b'' then Some (CHR 0x08)
      else if c = CHR ''f'' then Some (CHR 0x0C)
      else if c = CHR ''n'' then Some (CHR 0x0A)
      else if c = CHR ''r'' then Some (CHR 0x0D)
      else if c = CHR ''t'' then Some (CHR 0x09)
      else None)"

datatype lex_result = Lex_error parse_error | Lex_next lex_mode "token list"

definition start_step :: "char \<Rightarrow> lex_result" where
  "start_step c =
     (if is_space c then Lex_next L_start []
      else if c = CHR ''{'' then Lex_next L_start [TLBrace]
      else if c = CHR ''}'' then Lex_next L_start [TRBrace]
      else if c = CHR ''['' then Lex_next L_start [TLBracket]
      else if c = CHR '']'' then Lex_next L_start [TRBracket]
      else if c = CHR '':'' then Lex_next L_start [TColon]
      else if c = CHR '','' then Lex_next L_start [TComma]
      else if c = CHR 0x22 then Lex_next (L_string []) []
      else if c = CHR ''-'' \<or> is_digit c then Lex_next (L_number [c]) []
      else if word_char c then Lex_next (L_word [c]) []
      else Lex_error SyntaxError)"

definition emit_then :: "token \<Rightarrow> lex_result \<Rightarrow> lex_result" where
  "emit_then t r = (case r of Lex_error e \<Rightarrow> Lex_error e | Lex_next m ts \<Rightarrow> Lex_next m (t # ts))"

fun lex_step :: "lex_mode \<Rightarrow> char \<Rightarrow> lex_result" where
  "lex_step L_start c = start_step c"
| "lex_step (L_string acc) c =
     (if c = CHR 0x22 then Lex_next L_start [TString (rev acc)]
      else if c = CHR 0x5C then Lex_next (L_escape acc) []
      else if code_unit c < 32 then Lex_error SyntaxError
      else Lex_next (L_string (c # acc)) [])"
| "lex_step (L_escape acc) c =
     (if c = CHR ''u'' then Lex_next (L_unicode acc []) []
      else case escape_char c of
        Some d \<Rightarrow> Lex_next (L_string (d # acc)) []
      | None \<Rightarrow> Lex_error SyntaxError)"
| "lex_step (L_unicode acc ds) c =
     (case hex_value c of
        None \<Rightarrow> Lex_error SyntaxError
      | Some d \<Rightarrow>
          (if length ds < 3 then Lex_next (L_unicode acc (ds @ [d])) []
           else let n = foldl (\<lambda>a b. 16 * a + b) 0 (ds @ [d])
                in if n < 256 then Lex_next (L_string (char_of n # acc)) []
                   else Lex_error Wide_code_unit))"
| "lex_step (L_number acc) c =
     (if number_char c then Lex_next (L_number (c # acc)) []
      else if is_json_number (rev acc) then emit_then (TNumber (rev acc)) (start_step c)
      else Lex_error SyntaxError)"
| "lex_step (L_word acc) c =
     (if word_char c then Lex_next (L_word (c # acc)) []
      else case word_token (rev acc) of
        Some t \<Rightarrow> emit_then t (start_step c)
      | None \<Rightarrow> Lex_error SyntaxError)"

fun lex_end :: "lex_mode \<Rightarrow> parse_error + token list" where
  "lex_end L_start = Inr []"
| "lex_end (L_number acc) =
     (if is_json_number (rev acc) then Inr [TNumber (rev acc)] else Inl SyntaxError)"
| "lex_end (L_word acc) =
     (case word_token (rev acc) of Some t \<Rightarrow> Inr [t] | None \<Rightarrow> Inl SyntaxError)"
| "lex_end _ = Inl SyntaxError"

fun lex :: "lex_mode \<Rightarrow> string \<Rightarrow> parse_error + token list" where
  "lex m [] = lex_end m"
| "lex m (c # cs) =
     (case lex_step m c of
        Lex_error e \<Rightarrow> Inl e
      | Lex_next m' ts \<Rightarrow> (case lex m' cs of Inl e \<Rightarrow> Inl e | Inr ts' \<Rightarrow> Inr (ts @ ts')))"

text \<open>
  The parser is a pushdown automaton over the tokens: the stack holds the arrays and
  objects that are open, the state says what may come next. A member whose key is
  already in the object replaces the earlier value, as an assignment would.
\<close>

datatype frame = In_array "json list" | In_object "(string \<times> json) list" | In_member "(string \<times> json) list" string

datatype pstate = P_value | P_value_or_close | P_key_or_close | P_key | P_colon | P_after | P_done json

fun put_member :: "(string \<times> json) list \<Rightarrow> string \<Rightarrow> json \<Rightarrow> (string \<times> json) list" where
  "put_member [] k v = [(k, v)]"
| "put_member ((k', v') # ms) k v = (if k' = k then (k, v) # ms else (k', v') # put_member ms k v)"

fun complete :: "json \<Rightarrow> frame list \<Rightarrow> (pstate \<times> frame list) option" where
  "complete v [] = Some (P_done v, [])"
| "complete v (In_array es # st) = Some (P_after, In_array (v # es) # st)"
| "complete v (In_member ms k # st) = Some (P_after, In_object (put_member ms k v) # st)"
| "complete v (In_object ms # st) = None"

fun scalar :: "token \<Rightarrow> json option" where
  "scalar (TString s) = Some (JString s)"
| "scalar (TNumber s) = Some (JNumber s)"
| "scalar TTrue = Some (JBool True)"
| "scalar TFalse = Some (JBool False)"
| "scalar TNull = Some JNull"
| "scalar _ = None"

definition value_step :: "frame list \<Rightarrow> token \<Rightarrow> (pstate \<times> frame list) option" where
  "value_step st t =
     (if t = TLBracket then Some (P_value_or_close, In_array [] # st)
      else if t = TLBrace then Some (P_key_or_close, In_object [] # st)
      else case scalar t of None \<Rightarrow> None | Some v \<Rightarrow> complete v st)"

definition close_array :: "frame list \<Rightarrow> (pstate \<times> frame list) option" where
  "close_array st = (case st of In_array es # st' \<Rightarrow> complete (JArray (rev es)) st' | _ \<Rightarrow> None)"

definition close_object :: "frame list \<Rightarrow> (pstate \<times> frame list) option" where
  "close_object st = (case st of In_object ms # st' \<Rightarrow> complete (JObject ms) st' | _ \<Rightarrow> None)"

definition key_step :: "frame list \<Rightarrow> token \<Rightarrow> (pstate \<times> frame list) option" where
  "key_step st t =
     (case (t, st) of
        (TString k, In_object ms # st') \<Rightarrow> Some (P_colon, In_member ms k # st')
      | _ \<Rightarrow> None)"

fun parse_step :: "pstate \<Rightarrow> frame list \<Rightarrow> token \<Rightarrow> (pstate \<times> frame list) option" where
  "parse_step (P_done v) st t = None"
| "parse_step P_colon st t = (if t = TColon then Some (P_value, st) else None)"
| "parse_step P_after st t =
     (if t = TComma then
        (case st of
           In_array es # st' \<Rightarrow> Some (P_value, st)
         | In_object ms # st' \<Rightarrow> Some (P_key, st)
         | _ \<Rightarrow> None)
      else if t = TRBracket then close_array st
      else if t = TRBrace then close_object st
      else None)"
| "parse_step P_key st t = key_step st t"
| "parse_step P_key_or_close st t = (if t = TRBrace then close_object st else key_step st t)"
| "parse_step P_value_or_close st t = (if t = TRBracket then close_array st else value_step st t)"
| "parse_step P_value st t = value_step st t"

fun parse_tokens :: "pstate \<Rightarrow> frame list \<Rightarrow> token list \<Rightarrow> parse_error + json" where
  "parse_tokens p st [] = (case p of P_done v \<Rightarrow> Inr v | _ \<Rightarrow> Inl SyntaxError)"
| "parse_tokens p st (t # ts) =
     (case parse_step p st t of
        None \<Rightarrow> Inl SyntaxError
      | Some (p', st') \<Rightarrow> parse_tokens p' st' ts)"

definition JSON_parse :: "string \<Rightarrow> parse_error + json" where
  "JSON_parse text = (case lex L_start text of Inl e \<Rightarrow> Inl e | Inr ts \<Rightarrow> parse_tokens P_value [] ts)"

text \<open>
  \<open>JSON.stringify\<close> on a string: the quotation mark and the backslash are escaped,
  the control characters get their short escape or \<open>u00XX\<close> with lower-case digits,
  everything else is copied.
\<close>

definition hex_digit :: "nat \<Rightarrow> char" where
  "hex_digit n = (if n < 10 then char_of (48 + n) else char_of (87 + n))"

definition quote_char :: "char \<Rightarrow> string" where
  "quote_char c =
     (if c = CHR 0x08 then [CHR 0x5C, CHR ''b'']
      else if c = CHR 0x09 then [CHR 0x5C, CHR ''t'']
      else if c = CHR 0x0A then [CHR 0x5C, CHR ''n'']
      else if c = CHR 0x0C then [CHR 0x5C, CHR ''f'']
      else if c = CHR 0x0D then [CHR 0x5C, CHR ''r'']
      else if c = CHR 0x22 then [CHR 0x5C, CHR 0x22]
      else if c = CHR 0x5C then [CHR 0x5C, CHR 0x5C]
      else if code_unit c < 32 then
        [CHR 0x5C, CHR ''u'', CHR ''0'', CHR ''0'',
         hex_digit (code_unit c div 16), hex_digit (code_unit c mod 16)]
      else [c])"

definition quote_json :: "string \<Rightarrow> string" where
  "quote_json s = CHR 0x22 # concat (map quote_char s) @ [CHR 0x22]"

fun join_with :: "string \<Rightarrow> string list \<Rightarrow> string" where
  "join_with sep [] = []"
| "join_with sep [x] = x"
| "join_with sep (x # y # ys) = x @ sep @ join_with sep (y # ys)"

text \<open>
  A favorite is the object \<open>{ id, name, country }\<close> that the weather card builds, its
  properties in that order; \<open>JSON.stringify\<close> writes them in that order, without
  white space.
\<close>

definition stringify_favorite :: "FavoriteCity \<Rightarrow> string" where
  "stringify_favorite f =
     ''{'' @ quote_json ''id'' @ '':'' @ quote_json (fav_id f) @ '','' @
     quote_json ''name'' @ '':'' @ quote_json (fav_name f) @ '','' @
     quote_json ''country'' @ '':'' @ quote_json (fav_country f) @ ''}''"

definition JSON_stringify :: "FavoriteCity list \<Rightarrow> string" where
  "JSON_stringify fs = ''['' @ join_with '','' (map stringify_favorite fs) @ '']''"

definition json_of_favorite :: "FavoriteCity \<Rightarrow> json" where
  "json_of_favorite f =
     JObject [(''id'', JString (fav_id f)), (''name'', JString (fav_name f)),
              (''country'', JString (fav_country f))]"

definition json_of_favorites :: "FavoriteCity list \<Rightarrow> json" where
  "json_of_favorites fs = JArray (map json_of_favorite fs)"

text \<open>
  The parsed values that are favorites lists as the store writes them. The hook casts
  whatever \<open>JSON.parse\<close> returns to \<open>FavoriteCity[]\<close> without a check.
\<close>

definition favorite_of_json :: "json \<Rightarrow> FavoriteCity option" where
  "favorite_of_json v =
     (case v of
        JObject [(k1, JString i), (k2, JString n), (k3, JString c)] \<Rightarrow>
          (if k1 = ''id'' \<and> k2 = ''name'' \<and> k3 = ''country''
           then Some \<lparr>fav_name = n, fav_country = c, fav_id = i\<rparr> else None)
      | _ \<Rightarrow> None)"

definition favorites_of_json :: "json \<Rightarrow> FavoriteCity list option" where
  "favorites_of_json v = (case v of JArray vs \<Rightarrow> those (map favorite_of_json vs) | _ \<Rightarrow> None)"

section \<open>The hook \<open>useFavorites\<close> with its storage\<close>

text \<open>
  \<open>localStorage\<close>: the items by key, and the calls of \<open>setItem\<close> so far (oldest
  first), so that a write that stores what was there already still counts as a write.
  The quota of the browser is not modelled: \<open>setItem\<close> always succeeds.
\<close>

record localStorage =
  items :: "string \<Rightarrow> string option"
  writes :: "(string \<times> string) list"

definition getItem :: "localStorage \<Rightarrow> string \<Rightarrow> string option" where
  "getItem ls k = items ls k"

definition setItem :: "string \<Rightarrow> string \<Rightarrow> localStorage \<Rightarrow> localStorage" where
  "setItem k v ls = ls\<lparr>items := (items ls)(k \<mapsto> v), writes := writes ls @ [(k, v)]\<rparr>"

definition STORAGE_KEY :: string where
  "STORAGE_KEY = ''weather-favorites''"

text \<open>
  \<^verbatim>\<open>
  useState<FavoriteCity[]>(() => {
    const stored = localStorage.getItem(STORAGE_KEY);
    return stored ? JSON.parse(stored) : [];
  });
  \<close>
  \<open>getItem\<close> returns \<open>null\<close> for a missing key; \<open>null\<close> and the empty string are
  falsy. An exception of \<open>JSON.parse\<close> is not caught: it leaves the initializer.
\<close>

definition initial_favorites :: "localStorage \<Rightarrow> parse_error + json" where
  "initial_favorites ls =
     (case getItem ls STORAGE_KEY of
        None \<Rightarrow> Inr (JArray [])
      | Some stored \<Rightarrow> if stored = [] then Inr (JArray []) else JSON_parse stored)"

text \<open>
  \<^verbatim>\<open>
  useEffect(() => {
    localStorage.setItem(STORAGE_KEY, JSON.stringify(favorites));
  }, [favorites]);
  \<close>
\<close>

definition persist :: "FavoriteCity list \<Rightarrow> localStorage \<Rightarrow> localStorage" where
  "persist favorites ls = setItem STORAGE_KEY (JSON_stringify favorites) ls"

text \<open>
  One instance of the hook is the state of one component that calls it, next to the
  storage all instances share. Mounting reads the initial state and, after the first
  render, runs the effect. A parsed value that is no favorites list is outside the
  typed model of the instance.
\<close>

datatype mount_error = Parse_failed parse_error | Not_favorites json

definition mount :: "localStorage \<Rightarrow> mount_error + FavoriteCity list \<times> localStorage" where
  "mount ls =
     (case initial_favorites ls of
        Inl e \<Rightarrow> Inl (Parse_failed e)
      | Inr v \<Rightarrow>
          (case favorites_of_json v of
             None \<Rightarrow> Inl (Not_favorites v)
           | Some fs \<Rightarrow> Inr (fs, persist fs ls)))"

text \<open>
  One instance of the hook between two renders: the array \<open>favorites\<close> of the last
  render, and the updaters that were passed to \<open>setFavorites\<close> since then. React
  only queues an updater; it is applied at the next render, and the calls made in one
  handler share one render (React 18, the version the README names).
\<close>

type_synonym updater = "FavoriteCity list \<Rightarrow> FavoriteCity list next_state"

record hook_instance =
  favorites_state :: "FavoriteCity list"
  pending :: "updater list"

definition setFavorites :: "updater \<Rightarrow> hook_instance \<Rightarrow> hook_instance" where
  "setFavorites updater h = h\<lparr>pending := pending h @ [updater]\<rparr>"

text \<open>
  The two functions the hook returns, as a component calls them:
  \<open>addFavorite(city)\<close> and \<open>removeFavorite(id)\<close> pass their updater to \<open>setFavorites\<close>
  and return. Neither touches the storage.
\<close>

definition call_addFavorite :: "FavoriteCity \<Rightarrow> hook_instance \<Rightarrow> hook_instance" where
  "call_addFavorite city = setFavorites (addFavorite_updater city)"

definition call_removeFavorite :: "string \<Rightarrow> hook_instance \<Rightarrow> hook_instance" where
  "call_removeFavorite i = setFavorites (removeFavorite_updater i)"

text \<open>A handler that makes the given calls of \<open>setFavorites\<close> one after the other.\<close>

definition make_calls :: "updater list \<Rightarrow> hook_instance \<Rightarrow> hook_instance" where
  "make_calls us h = foldl (\<lambda>h u. setFavorites u h) h us"

text \<open>
  The render applies the queued updaters in order, each to the result of the one
  before. The array of the new render is another object than that of the last
  render as soon as one updater returned a new array.
\<close>

fun final_state :: "updater list \<Rightarrow> FavoriteCity list \<Rightarrow> FavoriteCity list" where
  "final_state [] fs = fs"
| "final_state (u # us) fs = final_state us (next_value fs (u fs))"

fun replaced :: "updater list \<Rightarrow> FavoriteCity list \<Rightarrow> bool" where
  "replaced [] fs = False"
| "replaced (u # us) fs = (case u fs of Same_object \<Rightarrow> replaced us fs | New_object v \<Rightarrow> True)"

text \<open>
  The render with the effect that follows it. The effect depends on \<open>[favorites]\<close>:
  it runs, and writes the array of this render, when that array is another object
  than the array of the last render; otherwise it does not run.
\<close>

definition render :: "hook_instance \<times> localStorage \<Rightarrow> hook_instance \<times> localStorage" where
  "render inst =
     (let h = fst inst; fs = final_state (pending h) (favorites_state h)
      in if replaced (pending h) (favorites_state h)
         then (\<lparr>favorites_state = fs, pending = []\<rparr>, persist fs (snd inst))
         else (h\<lparr>pending := []\<rparr>, snd inst))"

text \<open>
  An event: the handler runs to its end against the instance (the storage is out of
  its reach), then React renders and the effect runs.
\<close>

definition handle :: "(hook_instance \<Rightarrow> hook_instance) \<Rightarrow> hook_instance \<times> localStorage \<Rightarrow> hook_instance \<times> localStorage" where
  "handle handler inst = (handler (fst inst), snd inst)"

definition event :: "(hook_instance \<Rightarrow> hook_instance) \<Rightarrow> hook_instance \<times> localStorage \<Rightarrow> hook_instance \<times> localStorage" where
  "event handler inst = render (handle handler inst)"

definition idle :: "FavoriteCity list \<Rightarrow> hook_instance" where
  "idle fs = \<lparr>favorites_state = fs, pending = []\<rparr>"

subsection \<open>The components that call the hook (App, WeatherCard, FavoritesList)\<close>

text \<open>
  Each of the three components calls \<open>useFavorites()\<close> and so has a state of its own;
  the storage is one. App renders the favorites list from the start and the weather
  card once there is weather; while a fetch is loading, both are taken away, and
  they mount anew when it is done. So first App and the list read the storage and
  their effects write, then, after the fetch, the card and the list read it and
  their effects write.
\<close>

record components =
  storage :: localStorage
  app_favorites :: "FavoriteCity list"
  card_favorites :: "FavoriteCity list"
  list_favorites :: "FavoriteCity list"

definition mount_components :: "localStorage \<Rightarrow> mount_error + components" where
  "mount_components ls =
     (case mount ls of
        Inl e \<Rightarrow> Inl e
      | Inr (fs, ls1) \<Rightarrow>
          (case mount (persist fs ls1) of
             Inl e \<Rightarrow> Inl e
           | Inr (gs, ls2) \<Rightarrow>
               Inr \<lparr>storage = persist gs ls2, app_favorites = fs,
                    card_favorites = gs, list_favorites = gs\<rparr>))"

text \<open>
  The heart button of the weather card, \<open>onClick={handleFavoriteToggle}\<close>:
  \<^verbatim>\<open>
  if (isFav) { removeFavorite(favoriteId); }
  else { addFavorite({ id: favoriteId, name: weather.city_name, country: weather.country }); }
  \<close>
  with \<open>isFav\<close> taken from the array of the last render.
\<close>

definition handleFavoriteToggle_calls :: "'a CurrentWeather_scheme \<Rightarrow> hook_instance \<Rightarrow> hook_instance" where
  "handleFavoriteToggle_calls weather h =
     (if isFavorite (favorites_state h) (favoriteId weather)
      then call_removeFavorite (favoriteId weather) h
      else call_addFavorite (favorite_of weather) h)"

definition card_toggle :: "'a CurrentWeather_scheme \<Rightarrow> components \<Rightarrow> components" where
  "card_toggle weather s =
     (let (h, ls) = event (handleFavoriteToggle_calls weather) (idle (card_favorites s), storage s)
      in s\<lparr>card_favorites := favorites_state h, storage := ls\<rparr>)"

text \<open>The remove button of an entry of the favorites list: \<open>removeFavorite(favorite.id)\<close>.\<close>

definition list_remove :: "string \<Rightarrow> components \<Rightarrow> components" where
  "list_remove i s =
     (let (h, ls) = event (call_removeFavorite i) (idle (list_favorites s), storage s)
      in s\<lparr>list_favorites := favorites_state h, storage := ls\<rparr>)"

definition empty_storage :: localStorage where
  "empty_storage = \<lparr>items = Map.empty, writes = []\<rparr>"

section \<open>Search bar (components/SearchBar)\<close>

record CitySearchResponse =
  response_results :: "CitySearchResult list"

text \<open>
  The state of the component: its four \<open>useState\<close> cells, the timeout that
  \<open>timeoutRef.current\<close> names while it is pending (the time at which it fires and the
  query its callback captured; \<open>None\<close> once it has fired or was cleared), and the
  world around it: the clock in milliseconds, every call of \<open>searchCities\<close> made so far
  (when, with which query), the calls that still await their answer (by their
  position in that list), what was logged with \<open>console.error\<close>, and the arguments
  \<open>onSelectCity\<close> was called with.
\<close>

record search_bar =
  query :: string
  results :: "CitySearchResult list"
  isOpen :: bool
  isLoading :: bool
  timeoutRef :: "(nat \<times> string) option"
  now :: nat
  calls :: "(nat \<times> string) list"
  in_flight :: "nat list"
  console :: "CitySearchResponse axios_error list"
  selected :: "string list"

definition debounce_delay :: nat where
  "debounce_delay = 300"

text \<open>
  The effect on \<open>[query]\<close>, with the cleanup of the run before it:
  \<^verbatim>\<open>
  if (timeoutRef.current) { clearTimeout(timeoutRef.current); }
  if (query.length < 2) { setResults([]); setIsOpen(false); return; }
  setIsLoading(true);
  timeoutRef.current = setTimeout(async () => { ... }, 300);
  \<close>
\<close>

definition query_effect :: "search_bar \<Rightarrow> search_bar" where
  "query_effect s =
     (if length (query s) < 2
      then s\<lparr>timeoutRef := None, results := [], isOpen := False\<rparr>
      else s\<lparr>isLoading := True, timeoutRef := Some (now s + debounce_delay, query s)\<rparr>)"

text \<open>The component after its first render and the first run of the effect.\<close>

definition mounted_search_bar :: search_bar where
  "mounted_search_bar =
     query_effect \<lparr>query = [], results = [], isOpen = False, isLoading = False,
       timeoutRef = None, now = 0, calls = [], in_flight = [], console = [], selected = []\<rparr>"

text \<open>
  \<open>onChange={(e) => setQuery(e.target.value)}\<close>: a new text is stored and the effect
  runs; the text that is there already leaves everything as it is (React bails out).
\<close>

definition setQuery :: "string \<Rightarrow> search_bar \<Rightarrow> search_bar" where
  "setQuery q s = (if q = query s then s else query_effect (s\<lparr>query := q\<rparr>))"

text \<open>
  The callback of the timeout starts \<open>weatherApi.searchCities(query)\<close> with the query of
  its closure; the call is then in flight.
\<close>

definition fire_timeout :: "search_bar \<Rightarrow> search_bar" where
  "fire_timeout s =
     (case timeoutRef s of
        None \<Rightarrow> s
      | Some (t, q) \<Rightarrow>
          s\<lparr>timeoutRef := None, calls := calls s @ [(t, q)],
            in_flight := in_flight s @ [length (calls s)]\<rparr>)"

text \<open>Time passes: the pending timeout fires when the clock reaches its time.\<close>

definition advance :: "nat \<Rightarrow> search_bar \<Rightarrow> search_bar" where
  "advance d s =
     (case timeoutRef s of
        None \<Rightarrow> s\<lparr>now := now s + d\<rparr>
      | Some (t, q) \<Rightarrow>
          if t \<le> now s + d then (fire_timeout s)\<lparr>now := now s + d\<rparr>
          else s\<lparr>now := now s + d\<rparr>)"

text \<open>
  The answer to call number \<open>n\<close> arrives:
  \<^verbatim>\<open>
  try {
    const response = await weatherApi.searchCities(query);
    setResults(response.results);
    setIsOpen(true);
  } catch (error) {
    console.error('Error searching cities:', error);
    setResults([]);
  } finally {
    setIsLoading(false);
  }
  \<close>
\<close>

definition respond ::
  "nat \<Rightarrow> CitySearchResponse axios_error + CitySearchResponse \<Rightarrow> search_bar \<Rightarrow> search_bar" where
  "respond n r s =
     (if n \<notin> set (in_flight s) then s
      else case r of
        Inr resp \<Rightarrow>
          s\<lparr>in_flight := removeAll n (in_flight s), results := response_results resp,
            isOpen := True, isLoading := False\<rparr>
      | Inl e \<Rightarrow>
          s\<lparr>in_flight := removeAll n (in_flight s), console := console s @ [e],
            results := [], isLoading := False\<rparr>)"

text \<open>
  \<^verbatim>\<open>
  const cityName = city.state ? `${city.name}, ${city.state}, ${city.country}`
                              : `${city.name}, ${city.country}`;
  onSelectCity(cityName); setQuery(''); setIsOpen(false);
  \<close>
  An empty \<open>state\<close> is falsy, like a missing one.
\<close>

definition cityName :: "CitySearchResult \<Rightarrow> string" where
  "cityName city =
     (case cs_state city of
        None \<Rightarrow> cs_name city @ '', '' @ cs_country city
      | Some st \<Rightarrow>
          if st = [] then cs_name city @ '', '' @ cs_country city
          else cs_name city @ '', '' @ st @ '', '' @ cs_country city)"

definition handleSelect :: "CitySearchResult \<Rightarrow> search_bar \<Rightarrow> search_bar" where
  "handleSelect city s =
     (setQuery [] (s\<lparr>selected := selected s @ [cityName city]\<rparr>))\<lparr>isOpen := False\<rparr>"

text \<open>\<open>handleClickOutside\<close>: a mouse press outside the component.\<close>

definition handleClickOutside :: "search_bar \<Rightarrow> search_bar" where
  "handleClickOutside s = s\<lparr>isOpen := False\<rparr>"

text \<open>The dropdown is rendered under \<open>{isOpen && results.length > 0 && ...}\<close>.\<close>

definition dropdown_shown :: "search_bar \<Rightarrow> bool" where
  "dropdown_shown s = (isOpen s \<and> results s \<noteq> [])"

datatype search_event =
    Keystroke string
  | Advance nat
  | Respond nat "CitySearchResponse axios_error + CitySearchResponse"
  | Select CitySearchResult
  | ClickOutside

fun search_step :: "search_event \<Rightarrow> search_bar \<Rightarrow> search_bar" where
  "search_step (Keystroke q) s = setQuery q s"
| "search_step (Advance d) s = advance d s"
| "search_step (Respond n r) s = respond n r s"
| "search_step (Select city) s = handleSelect city s"
| "search_step ClickOutside s = handleClickOutside s"

fun search_run :: "search_event list \<Rightarrow> search_bar \<Rightarrow> search_bar" where
  "search_run [] s = s"
| "search_run (e # es) s = search_run es (search_step e s)"

text \<open>
  A typing script: each entry is the text after a keystroke and the time that passes
  before the next one (after the last entry: the time the user then waits).
\<close>

fun script_events :: "(string \<times> nat) list \<Rightarrow> search_event list" where
  "script_events [] = []"
| "script_events ((q, d) # rest) = Keystroke q # Advance d # script_events rest"

text \<open>Every keystroke of the script changes the text, starting from the text \<open>cur\<close>.\<close>

fun edits :: "string \<Rightarrow> (string \<times> nat) list \<Rightarrow> bool" where
  "edits cur [] = True"
| "edits cur ((q, d) # rest) = (q \<noteq> cur \<and> edits q rest)"

text \<open>
  The calls the specification asks for: one for each text of length at least 2 that
  stays unedited for the whole debounce delay, in the order of typing.
\<close>

fun expected_calls :: "(string \<times> nat) list \<Rightarrow> string list" where
  "expected_calls [] = []"
| "expected_calls ((q, d) # rest) =
     (if 2 \<le> length q \<and> debounce_delay \<le> d then q # expected_calls rest else expected_calls rest)"

text \<open>
  The states of the controller in the specification, read off the component: a timeout
  is pending, else a call is in flight, else the dropdown is shown, else idle.
\<close>

datatype phase = Idle | Debouncing | Searching | Open

definition phase_of :: "search_bar \<Rightarrow> phase" where
  "phase_of s =
     (if timeoutRef s \<noteq> None then Debouncing
      else if in_flight s \<noteq> [] then Searching
      else if dropdown_shown s then Open else Idle)"

subsection \<open>The tokens of a serialized favorites list\<close>

text \<open>What the lexer makes of the text that \<open>JSON_stringify\<close> writes.\<close>

definition prepend_tokens :: "token list \<Rightarrow> parse_error + token list \<Rightarrow> parse_error + token list" where
  "prepend_tokens ts r = (case r of Inl e \<Rightarrow> Inl e | Inr ts' \<Rightarrow> Inr (ts @ ts'))"

definition favorite_tokens :: "FavoriteCity \<Rightarrow> token list" where
  "favorite_tokens f =
     [TLBrace, TString ''id'', TColon, TString (fav_id f), TComma,
      TString ''name'', TColon, TString (fav_name f), TComma,
      TString ''country'', TColon, TString (fav_country f), TRBrace]"

definition favorites_tokens :: "FavoriteCity list \<Rightarrow> token list" where
  "favorites_tokens fs =
     (case fs of
        [] \<Rightarrow> [TLBracket, TRBracket]
      | f # gs \<Rightarrow> TLBracket # favorite_tokens f @ concat (map (\<lambda>g. TComma # favorite_tokens g) gs) @ [TRBracket])"

section \<open>Properties of the favorites store\<close>

lemma has_id_iff: "has_id i fs \<longleftrightarrow> i \<in> fav_id ` set fs"
  by (auto simp: has_id_def list_ex_iff)

lemma addFavorite_eq:
  "addFavorite city fs = (if has_id (fav_id city) fs then fs else fs @ [city])"
  by (simp add: addFavorite_def addFavorite_updater_def next_value_def)

lemma removeFavorite_eq: "removeFavorite i fs = filter (\<lambda>f. fav_id f \<noteq> i) fs"
  by (simp add: removeFavorite_def removeFavorite_updater_def next_value_def)

lemma handleFavoriteToggle_eq:
  "handleFavoriteToggle w fs =
     (if has_id (favoriteId w) fs then removeFavorite (favoriteId w) fs
      else addFavorite (favorite_of w) fs)"
  by (simp add: handleFavoriteToggle_def handleFavoriteToggle_updater_def isFavorite_def
      removeFavorite_def addFavorite_def)

lemma count_id_zero_iff: "count_id i fs = 0 \<longleftrightarrow> \<not> has_id i fs"
  by (induction fs) (auto simp: count_id_def has_id_def)

lemma count_id_append: "count_id i (fs @ gs) = count_id i fs + count_id i gs"
  by (simp add: count_id_def)

lemma count_id_absent: "i \<notin> fav_id ` set fs \<Longrightarrow> count_id i fs = 0"
  by (simp add: count_id_zero_iff has_id_iff)

lemma unique_ids_count: "unique_ids fs \<Longrightarrow> count_id i fs \<le> 1"
proof (induction fs)
  case Nil
  then show ?case by (simp add: count_id_def)
next
  case (Cons a fs)
  show ?case
  proof (cases "fav_id a = i")
    case True
    with Cons.prems have "i \<notin> fav_id ` set fs" by (auto simp: unique_ids_def)
    then have "count_id i fs = 0" by (rule count_id_absent)
    with True show ?thesis by (simp add: count_id_def)
  next
    case False
    with Cons show ?thesis by (simp add: count_id_def unique_ids_def)
  qed
qed

lemma unique_ids_add: "unique_ids fs \<Longrightarrow> unique_ids (addFavorite city fs)"
  by (auto simp: addFavorite_eq unique_ids_def has_id_iff)

lemma unique_ids_remove: "unique_ids fs \<Longrightarrow> unique_ids (removeFavorite i fs)"
  by (simp add: removeFavorite_eq unique_ids_def distinct_map_filter)

lemma unique_ids_toggle: "unique_ids fs \<Longrightarrow> unique_ids (handleFavoriteToggle w fs)"
  by (simp add: handleFavoriteToggle_eq unique_ids_add unique_ids_remove)

lemma unique_ids_apply: "unique_ids fs \<Longrightarrow> unique_ids (apply_store_op x fs)"
  by (cases x) (simp_all add: unique_ids_add unique_ids_remove unique_ids_toggle)

lemma unique_ids_run: "unique_ids fs \<Longrightarrow> unique_ids (run_store_ops xs fs)"
  by (induction xs arbitrary: fs) (simp_all add: unique_ids_apply)

text \<open>
  C2. \<open>add(city)\<close> appends the city when no favorite has its id and returns the list
  unchanged otherwise; adding a city a second time changes nothing, and from a store
  state (a list without two entries of one id) the list then holds exactly one entry
  with that id.
\<close>

theorem C2_add_inserts_once:
  "(if fav_id city \<in> fav_id ` set fs then addFavorite city fs = fs
    else addFavorite city fs = fs @ [city])
   \<and> addFavorite city (addFavorite city fs) = addFavorite city fs
   \<and> 1 \<le> count_id (fav_id city) (addFavorite city (addFavorite city fs))
   \<and> (unique_ids fs \<longrightarrow> count_id (fav_id city) (addFavorite city (addFavorite city fs)) = 1)"
proof -
  have first: "(if fav_id city \<in> fav_id ` set fs then addFavorite city fs = fs
          else addFavorite city fs = fs @ [city])"
    by (simp add: addFavorite_eq has_id_iff)
  have present: "has_id (fav_id city) (addFavorite city fs)"
    by (auto simp: addFavorite_eq has_id_iff)
  then have again: "addFavorite city (addFavorite city fs) = addFavorite city fs"
    by (simp add: addFavorite_eq [of city "addFavorite city fs"])
  have "count_id (fav_id city) (addFavorite city fs) \<noteq> 0"
    using present by (simp add: count_id_zero_iff)
  then have some: "1 \<le> count_id (fav_id city) (addFavorite city fs)"
    by linarith
  have one: "count_id (fav_id city) (addFavorite city fs) = 1" if "unique_ids fs"
    using unique_ids_count [OF unique_ids_add [OF that], of "fav_id city" city] some by linarith
  from first again some one show ?thesis by simp
qed

theorem C2_add_inserts_once_witness:
  "unique_ids [\<lparr>fav_name = ''Paris'', fav_country = ''FR'', fav_id = ''Paris-FR''\<rparr>]
   \<and> addFavorite \<lparr>fav_name = ''London'', fav_country = ''GB'', fav_id = ''London-GB''\<rparr>
       (addFavorite \<lparr>fav_name = ''London'', fav_country = ''GB'', fav_id = ''London-GB''\<rparr>
          [\<lparr>fav_name = ''Paris'', fav_country = ''FR'', fav_id = ''Paris-FR''\<rparr>])
     = [\<lparr>fav_name = ''Paris'', fav_country = ''FR'', fav_id = ''Paris-FR''\<rparr>,
        \<lparr>fav_name = ''London'', fav_country = ''GB'', fav_id = ''London-GB''\<rparr>]
   \<and> count_id ''London-GB''
       (addFavorite \<lparr>fav_name = ''London'', fav_country = ''GB'', fav_id = ''London-GB''\<rparr>
         (addFavorite \<lparr>fav_name = ''London'', fav_country = ''GB'', fav_id = ''London-GB''\<rparr>
            [\<lparr>fav_name = ''Paris'', fav_country = ''FR'', fav_id = ''Paris-FR''\<rparr>])) = 1"
proof -
  have u: "unique_ids [\<lparr>fav_name = ''Paris'', fav_country = ''FR'', fav_id = ''Paris-FR''\<rparr>]"
    by (simp add: unique_ids_def)
  show ?thesis
    using u C2_add_inserts_once [of "\<lparr>fav_name = ''London'', fav_country = ''GB'', fav_id = ''London-GB''\<rparr>"
        "[\<lparr>fav_name = ''Paris'', fav_country = ''FR'', fav_id = ''Paris-FR''\<rparr>]"]
    by (simp add: addFavorite_eq has_id_def count_id_def)
qed

lemma derived_id_add: "derived_id city \<Longrightarrow> list_all derived_id fs \<Longrightarrow> list_all derived_id (addFavorite city fs)"
  by (simp add: addFavorite_eq)

lemma derived_id_remove: "list_all derived_id fs \<Longrightarrow> list_all derived_id (removeFavorite i fs)"
  by (simp add: removeFavorite_eq list_all_iff)

lemma derived_id_favorite_of: "derived_id (favorite_of w)"
  by (simp add: derived_id_def favorite_of_def favoriteId_def)

lemma derived_id_apply:
  "ui_op x \<Longrightarrow> list_all derived_id fs \<Longrightarrow> list_all derived_id (apply_store_op x fs)"
  by (cases x)
     (simp_all add: handleFavoriteToggle_eq derived_id_add derived_id_remove derived_id_favorite_of)

lemma derived_id_run:
  "list_all ui_op xs \<Longrightarrow> list_all derived_id fs \<Longrightarrow> list_all derived_id (run_store_ops xs fs)"
  by (induction xs arbitrary: fs) (simp_all add: derived_id_apply)

text \<open>
  C6. The id of a favorite made by the weather card is \<open>name-country\<close>, and so is the
  id of every favorite in a list reached from the empty one by the operations of the
  user interface. Add, remove and the toggle keep the ids of the list pairwise
  distinct, so every list reached from a list with distinct ids (the empty one of a
  first start among them) has distinct ids.
\<close>

theorem C6_unique_ids_invariant:
  "fav_id (favorite_of w) = fav_name (favorite_of w) @ ''-'' @ fav_country (favorite_of w)
   \<and> (list_all ui_op xs \<longrightarrow> list_all derived_id (run_store_ops xs []))
   \<and> (unique_ids fs \<longrightarrow> unique_ids (addFavorite city fs) \<and> unique_ids (removeFavorite i fs)
        \<and> unique_ids (handleFavoriteToggle w fs) \<and> unique_ids (run_store_ops xs fs))
   \<and> unique_ids (run_store_ops xs [])"
proof -
  have "unique_ids []" by (simp add: unique_ids_def)
  then have "unique_ids (run_store_ops xs [])" by (rule unique_ids_run)
  moreover have "list_all derived_id (run_store_ops xs [])" if "list_all ui_op xs"
    using that by (rule derived_id_run) simp
  ultimately show ?thesis
    by (simp add: favorite_of_def favoriteId_def unique_ids_add unique_ids_remove
        unique_ids_toggle unique_ids_run)
qed

theorem C6_unique_ids_invariant_witness:
  "unique_ids [\<lparr>fav_name = ''Paris'', fav_country = ''FR'', fav_id = ''Paris-FR''\<rparr>]
   \<and> unique_ids (run_store_ops [Toggle ''London'' ''GB'', Toggle ''Paris'' ''FR'', Remove ''Oslo-NO'']
        [\<lparr>fav_name = ''Paris'', fav_country = ''FR'', fav_id = ''Paris-FR''\<rparr>])
   \<and> run_store_ops [Toggle ''London'' ''GB'', Toggle ''Paris'' ''FR'', Remove ''Oslo-NO'']
        [\<lparr>fav_name = ''Paris'', fav_country = ''FR'', fav_id = ''Paris-FR''\<rparr>]
      = [\<lparr>fav_name = ''London'', fav_country = ''GB'', fav_id = ''London-GB''\<rparr>]
   \<and> list_all ui_op [Toggle ''London'' ''GB'', Toggle ''Paris'' ''FR'', Remove ''Oslo-NO'']
   \<and> list_all derived_id (run_store_ops [Toggle ''London'' ''GB'', Toggle ''Paris'' ''FR'', Remove ''Oslo-NO''] [])"
proof -
  let ?ops = "[Toggle ''London'' ''GB'', Toggle ''Paris'' ''FR'', Remove ''Oslo-NO'']"
  let ?paris = "\<lparr>fav_name = ''Paris'', fav_country = ''FR'', fav_id = ''Paris-FR''\<rparr>"
  have u: "unique_ids [?paris]"
    by (simp add: unique_ids_def)
  have o: "list_all ui_op ?ops"
    by simp
  have r: "run_store_ops ?ops [?paris]
      = [\<lparr>fav_name = ''London'', fav_country = ''GB'', fav_id = ''London-GB''\<rparr>]"
    by (simp add: handleFavoriteToggle_eq addFavorite_eq removeFavorite_eq has_id_def
        favoriteId_def favorite_of_def weather_of_def)
  from C6_unique_ids_invariant [of "weather_of ''London'' ''GB''" ?ops "[?paris]" ?paris "''Oslo-NO''"]
  have "(list_all ui_op ?ops \<longrightarrow> list_all derived_id (run_store_ops ?ops []))
      \<and> (unique_ids [?paris] \<longrightarrow> unique_ids (run_store_ops ?ops [?paris]))"
    by (elim conjE) blast
  with u o have "unique_ids (run_store_ops ?ops [?paris])"
    and "list_all derived_id (run_store_ops ?ops [])"
    by blast+
  with u o r show ?thesis by simp
qed

section \<open>Serialization: what is written parses back\<close>

lemmas eval_defs = JSON_parse_def start_step_def is_space_def is_digit_def word_char_def code_unit_def
  close_array_def close_object_def value_step_def key_step_def emit_then_def number_char_def
  is_json_number_def word_token_def escape_char_def hex_value_def

lemma prepend_nil [simp]: "prepend_tokens [] r = r"
  by (simp add: prepend_tokens_def split: sum.split)

lemma prepend_prepend [simp]: "prepend_tokens ts (prepend_tokens us r) = prepend_tokens (ts @ us) r"
  by (simp add: prepend_tokens_def split: sum.split)

lemma lex_Cons: "lex m (c # cs) =
   (case lex_step m c of Lex_error e \<Rightarrow> Inl e | Lex_next m' ts \<Rightarrow> prepend_tokens ts (lex m' cs))"
  by (simp add: prepend_tokens_def split: lex_result.split)

lemma hex_value_hex_digit: "k < 16 \<Longrightarrow> hex_value (hex_digit k) = Some k"
  by (auto simp: hex_value_def hex_digit_def is_digit_def code_unit_def)

lemma hex_value_zero: "hex_value (CHR ''0'') = Some 0"
  by (simp add: hex_value_def is_digit_def code_unit_def)

lemma code_unit_less: "code_unit c < 256"
  by (simp add: code_unit_def)

lemma lex_quote_char: "lex (L_string acc) (quote_char c @ rest) = lex (L_string (c # acc)) rest"
proof -
  consider (short) "c \<in> {CHR 0x08, CHR 0x09, CHR 0x0A, CHR 0x0C, CHR 0x0D, CHR 0x22, CHR 0x5C}"
    | (ctrl) "c \<notin> {CHR 0x08, CHR 0x09, CHR 0x0A, CHR 0x0C, CHR 0x0D, CHR 0x22, CHR 0x5C}" "code_unit c < 32"
    | (plain) "c \<notin> {CHR 0x08, CHR 0x09, CHR 0x0A, CHR 0x0C, CHR 0x0D, CHR 0x22, CHR 0x5C}" "\<not> code_unit c < 32"
    by blast
  then show ?thesis
  proof cases
    case short
    then show ?thesis
      by (auto simp: quote_char_def lex_Cons escape_char_def simp del: lex.simps(2))
  next
    case ctrl
    have d1: "hex_value (hex_digit (code_unit c div 16)) = Some (code_unit c div 16)"
      using ctrl(2) by (intro hex_value_hex_digit) simp
    have d2: "hex_value (hex_digit (code_unit c mod 16)) = Some (code_unit c mod 16)"
      by (intro hex_value_hex_digit) simp
    have same_char: "char_of (code_unit c) = c"
      by (simp add: code_unit_def)
    have small: "16 * (code_unit c div 16) + code_unit c mod 16 < 256"
      using code_unit_less [of c] by simp
    from ctrl show ?thesis
      by (simp add: quote_char_def lex_Cons hex_value_zero d1 d2 same_char small del: lex.simps(2))
  next
    case plain
    then show ?thesis
      by (simp add: quote_char_def lex_Cons del: lex.simps(2))
  qed
qed

lemma lex_string_body:
  "lex (L_string acc) (concat (map quote_char s) @ rest) = lex (L_string (rev s @ acc)) rest"
proof (induction s arbitrary: acc)
  case Nil
  show ?case by simp
next
  case (Cons c s)
  have "lex (L_string acc) (concat (map quote_char (c # s)) @ rest)
      = lex (L_string acc) (quote_char c @ (concat (map quote_char s) @ rest))"
    by simp
  also have "\<dots> = lex (L_string (c # acc)) (concat (map quote_char s) @ rest)"
    by (rule lex_quote_char)
  also have "\<dots> = lex (L_string (rev s @ c # acc)) rest"
    by (rule Cons.IH)
  finally show ?case by simp
qed

lemma lex_quote_json:
  "lex L_start (quote_json s @ rest) = prepend_tokens [TString s] (lex L_start rest)"
proof -
  have "lex L_start (quote_json s @ rest) = lex (L_string []) (concat (map quote_char s) @ (CHR 0x22 # rest))"
    by (simp add: quote_json_def lex_Cons start_step_def is_space_def del: lex.simps(2))
  also have "\<dots> = lex (L_string (rev s)) (CHR 0x22 # rest)"
    using lex_string_body [of "[]" s "CHR 0x22 # rest"] by simp
  also have "\<dots> = prepend_tokens [TString s] (lex L_start rest)"
    by (simp add: lex_Cons del: lex.simps(2))
  finally show ?thesis .
qed

lemma lex_punct:
  "lex L_start (CHR ''{'' # rest) = prepend_tokens [TLBrace] (lex L_start rest)"
  "lex L_start (CHR ''}'' # rest) = prepend_tokens [TRBrace] (lex L_start rest)"
  "lex L_start (CHR ''['' # rest) = prepend_tokens [TLBracket] (lex L_start rest)"
  "lex L_start (CHR '']'' # rest) = prepend_tokens [TRBracket] (lex L_start rest)"
  "lex L_start (CHR '':'' # rest) = prepend_tokens [TColon] (lex L_start rest)"
  "lex L_start (CHR '','' # rest) = prepend_tokens [TComma] (lex L_start rest)"
  by (simp_all add: lex_Cons start_step_def is_space_def del: lex.simps(2))

lemma lex_favorite:
  "lex L_start (stringify_favorite f @ rest) = prepend_tokens (favorite_tokens f) (lex L_start rest)"
  by (simp add: stringify_favorite_def lex_punct lex_quote_json favorite_tokens_def del: lex.simps(2))

lemma lex_more_favorites:
  "lex L_start (concat (map (\<lambda>f. CHR '','' # stringify_favorite f) fs) @ rest)
   = prepend_tokens (concat (map (\<lambda>f. TComma # favorite_tokens f) fs)) (lex L_start rest)"
  by (induction fs) (simp_all add: lex_punct lex_favorite del: lex.simps(2))

lemma join_with_Cons: "join_with sep (x # xs) = x @ concat (map (\<lambda>y. sep @ y) xs)"
  by (induction xs arbitrary: x) simp_all

lemma lex_stringify: "lex L_start (JSON_stringify fs) = Inr (favorites_tokens fs)"
proof (cases fs)
  case Nil
  then show ?thesis
    by (simp add: JSON_stringify_def favorites_tokens_def lex_punct prepend_tokens_def del: lex.simps(2))
next
  case (Cons f gs)
  have "JSON_stringify fs = CHR ''['' # (stringify_favorite f @ (concat (map (\<lambda>g. '','' @ stringify_favorite g) gs) @ '']''))"
    by (simp add: JSON_stringify_def Cons join_with_Cons comp_def)
  then show ?thesis
    by (simp add: lex_punct lex_favorite lex_more_favorites favorites_tokens_def Cons prepend_tokens_def del: lex.simps(2))
qed

lemma parse_favorite:
  "parse_tokens P_value (In_array es # st) (favorite_tokens f @ rest)
   = parse_tokens P_after (In_array (json_of_favorite f # es) # st) rest"
  by (simp add: favorite_tokens_def value_step_def key_step_def close_object_def json_of_favorite_def)

lemma parse_more_favorites:
  "parse_tokens P_after (In_array es # st) (concat (map (\<lambda>g. TComma # favorite_tokens g) gs) @ rest)
   = parse_tokens P_after (In_array (rev (map json_of_favorite gs) @ es) # st) rest"
proof (induction gs arbitrary: es)
  case Nil
  show ?case by simp
next
  case (Cons g gs)
  have "parse_tokens P_after (In_array es # st) (concat (map (\<lambda>g. TComma # favorite_tokens g) (g # gs)) @ rest)
      = parse_tokens P_value (In_array es # st) (favorite_tokens g @ (concat (map (\<lambda>g. TComma # favorite_tokens g) gs) @ rest))"
    by simp
  also have "\<dots> = parse_tokens P_after (In_array (json_of_favorite g # es) # st) (concat (map (\<lambda>g. TComma # favorite_tokens g) gs) @ rest)"
    by (rule parse_favorite)
  also have "\<dots> = parse_tokens P_after (In_array (rev (map json_of_favorite gs) @ json_of_favorite g # es) # st) rest"
    by (rule Cons.IH)
  finally show ?case by simp
qed

lemma parse_favorites_tokens: "parse_tokens P_value [] (favorites_tokens fs) = Inr (json_of_favorites fs)"
proof (cases fs)
  case Nil
  then show ?thesis
    by (simp add: favorites_tokens_def value_step_def close_array_def json_of_favorites_def)
next
  case (Cons f gs)
  have "parse_tokens P_value [] (favorites_tokens fs)
      = parse_tokens P_value_or_close [In_array []] (favorite_tokens f @ (concat (map (\<lambda>g. TComma # favorite_tokens g) gs) @ [TRBracket]))"
    by (simp add: favorites_tokens_def Cons value_step_def)
  also have "\<dots> = parse_tokens P_value [In_array []] (favorite_tokens f @ (concat (map (\<lambda>g. TComma # favorite_tokens g) gs) @ [TRBracket]))"
    by (simp add: favorite_tokens_def value_step_def)
  also have "\<dots> = parse_tokens P_after [In_array [json_of_favorite f]] (concat (map (\<lambda>g. TComma # favorite_tokens g) gs) @ [TRBracket])"
    by (rule parse_favorite)
  also have "\<dots> = parse_tokens P_after [In_array (rev (map json_of_favorite gs) @ [json_of_favorite f])] [TRBracket]"
    by (rule parse_more_favorites)
  also have "\<dots> = Inr (json_of_favorites fs)"
    by (simp add: close_array_def json_of_favorites_def Cons)
  finally show ?thesis .
qed

lemma JSON_roundtrip: "JSON_parse (JSON_stringify fs) = Inr (json_of_favorites fs)"
  by (simp add: JSON_parse_def lex_stringify parse_favorites_tokens)

lemma favorite_of_json_inverse: "favorite_of_json (json_of_favorite f) = Some f"
  by (simp add: favorite_of_json_def json_of_favorite_def)

lemma those_map_Some: "those (map (\<lambda>x. Some (g x)) xs) = Some (map g xs)"
  by (induction xs) simp_all

lemma favorites_of_json_inverse: "favorites_of_json (json_of_favorites fs) = Some fs"
proof -
  have "map favorite_of_json (map json_of_favorite fs) = map (\<lambda>x. Some (id x)) fs"
    by (simp add: favorite_of_json_inverse)
  then show ?thesis
    by (simp add: favorites_of_json_def json_of_favorites_def those_map_Some del: map_map)
qed

lemma JSON_stringify_nonempty: "JSON_stringify fs \<noteq> []"
  by (simp add: JSON_stringify_def)

section \<open>Properties of the hook and its storage\<close>

lemma getItem_persist: "getItem (persist gs ls) STORAGE_KEY = Some (JSON_stringify gs)"
  by (simp add: persist_def setItem_def getItem_def)

lemma writes_persist: "writes (persist gs ls) = writes ls @ [(STORAGE_KEY, JSON_stringify gs)]"
  by (simp add: persist_def setItem_def)

lemma make_calls_fields:
  "favorites_state (make_calls us h) = favorites_state h" "pending (make_calls us h) = pending h @ us"
  by (induction us arbitrary: h) (simp_all add: make_calls_def setFavorites_def)

lemma final_state_append: "final_state (us @ vs) fs = final_state vs (final_state us fs)"
  by (induction us arbitrary: fs) simp_all

lemma replaced_append: "replaced (us @ vs) fs \<longleftrightarrow> replaced us fs \<or> replaced vs (final_state us fs)"
  by (induction us arbitrary: fs) (simp_all add: next_value_def split: next_state.split)

lemma final_state_unreplaced: "\<not> replaced us fs \<Longrightarrow> final_state us fs = fs"
  by (induction us arbitrary: fs) (simp_all add: next_value_def split: next_state.splits)

lemma single_calls:
  "replaced [removeFavorite_updater i] fs"
  "final_state [removeFavorite_updater i] fs = removeFavorite i fs"
  "replaced [addFavorite_updater city] fs \<longleftrightarrow> \<not> has_id (fav_id city) fs"
  "final_state [addFavorite_updater city] fs = addFavorite city fs"
  by (simp_all add: removeFavorite_updater_def addFavorite_updater_def removeFavorite_def addFavorite_def)

lemma replaced_remove: "replaced (us @ removeFavorite_updater i # vs) fs"
  by (simp add: replaced_append removeFavorite_updater_def)

lemma event_calls:
  assumes "pending h = []"
  shows "event (make_calls us) (h, ls) =
     (if replaced us (favorites_state h)
      then (\<lparr>favorites_state = final_state us (favorites_state h), pending = []\<rparr>,
            persist (final_state us (favorites_state h)) ls)
      else (h, ls))"
  using assms by (simp add: event_def handle_def render_def make_calls_fields Let_def)

lemma event_call_removeFavorite:
  "event (call_removeFavorite i) (idle fs, ls)
     = (idle (removeFavorite i fs), persist (removeFavorite i fs) ls)"
  by (simp add: event_def handle_def render_def idle_def call_removeFavorite_def setFavorites_def
      removeFavorite_updater_def removeFavorite_def next_value_def Let_def)

lemma event_call_addFavorite:
  "event (call_addFavorite city) (idle fs, ls)
     = (if has_id (fav_id city) fs then (idle fs, ls)
        else (idle (fs @ [city]), persist (fs @ [city]) ls))"
  by (simp add: event_def handle_def render_def idle_def call_addFavorite_def setFavorites_def
      addFavorite_updater_def next_value_def Let_def)

lemma idle_fields: "favorites_state (idle fs) = fs" "pending (idle fs) = []"
  by (simp_all add: idle_def)

lemma toggle_event:
  "event (handleFavoriteToggle_calls weather) (idle fs, ls)
     = (if handleFavoriteToggle_updater weather fs = Same_object then (idle fs, ls)
        else (idle (handleFavoriteToggle weather fs), persist (handleFavoriteToggle weather fs) ls))"
  by (simp add: event_def handle_def render_def idle_def handleFavoriteToggle_calls_def
      call_addFavorite_def call_removeFavorite_def setFavorites_def Let_def
      handleFavoriteToggle_def handleFavoriteToggle_updater_def next_value_def
      addFavorite_updater_def removeFavorite_updater_def isFavorite_def)

lemma mount_stringify:
  assumes "getItem ls STORAGE_KEY = Some (JSON_stringify fs)"
  shows "initial_favorites ls = Inr (json_of_favorites fs)" and "mount ls = Inr (fs, persist fs ls)"
proof -
  show first: "initial_favorites ls = Inr (json_of_favorites fs)"
    using assms by (simp add: initial_favorites_def JSON_stringify_nonempty JSON_roundtrip)
  show "mount ls = Inr (fs, persist fs ls)"
    by (simp add: mount_def first favorites_of_json_inverse)
qed

text \<open>
  C1, as the code has it. A missing record and an empty one give the empty list, and
  a record that the store wrote (the serialization of a list) gives that list. Any
  other text goes to \<open>JSON.parse\<close>: when it does not parse, the error is not caught
  and initialization fails with it.
\<close>

theorem C1_initial_state:
  "(getItem ls STORAGE_KEY = None \<or> getItem ls STORAGE_KEY = Some []
      \<longrightarrow> initial_favorites ls = Inr (JArray []) \<and> mount ls = Inr ([], persist [] ls))
   \<and> (getItem ls STORAGE_KEY = Some (JSON_stringify fs)
      \<longrightarrow> initial_favorites ls = Inr (json_of_favorites fs) \<and> mount ls = Inr (fs, persist fs ls))
   \<and> (getItem ls STORAGE_KEY = Some stored \<and> stored \<noteq> [] \<and> JSON_parse stored = Inl e
      \<longrightarrow> initial_favorites ls = Inl e \<and> mount ls = Inl (Parse_failed e))"
proof -
  have missing: "initial_favorites ls = Inr (JArray []) \<and> mount ls = Inr ([], persist [] ls)"
    if "getItem ls STORAGE_KEY = None \<or> getItem ls STORAGE_KEY = Some []"
    using that by (auto simp: initial_favorites_def mount_def favorites_of_json_def)
  have written: "initial_favorites ls = Inr (json_of_favorites fs) \<and> mount ls = Inr (fs, persist fs ls)"
    if "getItem ls STORAGE_KEY = Some (JSON_stringify fs)"
    using mount_stringify [OF that] by simp
  have corrupt: "initial_favorites ls = Inl e \<and> mount ls = Inl (Parse_failed e)"
    if "getItem ls STORAGE_KEY = Some stored \<and> stored \<noteq> [] \<and> JSON_parse stored = Inl e"
    using that by (simp add: initial_favorites_def mount_def)
  from missing written corrupt show ?thesis by blast
qed

theorem C1_initial_state_witness:
  \<open>mount empty_storage = Inr ([], persist [] empty_storage)
   \<and> mount (persist [\<lparr>fav_name = ''London'', fav_country = ''GB'', fav_id = ''London-GB''\<rparr>] empty_storage)
     = Inr ([\<lparr>fav_name = ''London'', fav_country = ''GB'', fav_id = ''London-GB''\<rparr>],
            persist [\<lparr>fav_name = ''London'', fav_country = ''GB'', fav_id = ''London-GB''\<rparr>]
              (persist [\<lparr>fav_name = ''London'', fav_country = ''GB'', fav_id = ''London-GB''\<rparr>] empty_storage))
   \<and> mount \<lparr>items = [STORAGE_KEY \<mapsto> ''[{"id":"London-GB"''], writes = []\<rparr> = Inl (Parse_failed SyntaxError)\<close>
proof -
  have a: "getItem empty_storage STORAGE_KEY = None"
    by (simp add: getItem_def empty_storage_def)
  have b: "getItem (persist [\<lparr>fav_name = ''London'', fav_country = ''GB'', fav_id = ''London-GB''\<rparr>] empty_storage)
      STORAGE_KEY = Some (JSON_stringify [\<lparr>fav_name = ''London'', fav_country = ''GB'', fav_id = ''London-GB''\<rparr>])"
    by (rule getItem_persist)
  have c: \<open>getItem \<lparr>items = [STORAGE_KEY \<mapsto> ''[{"id":"London-GB"''], writes = []\<rparr> STORAGE_KEY
      = Some ''[{"id":"London-GB"'' \<and> ''[{"id":"London-GB"'' \<noteq> []
      \<and> JSON_parse ''[{"id":"London-GB"'' = Inl SyntaxError\<close>
    by (simp add: getItem_def eval_defs)
  from a C1_initial_state [of empty_storage]
  have "mount empty_storage = Inr ([], persist [] empty_storage)" by blast
  moreover from b C1_initial_state [of
      "persist [\<lparr>fav_name = ''London'', fav_country = ''GB'', fav_id = ''London-GB''\<rparr>] empty_storage"
      "[\<lparr>fav_name = ''London'', fav_country = ''GB'', fav_id = ''London-GB''\<rparr>]"]
  have "mount (persist [\<lparr>fav_name = ''London'', fav_country = ''GB'', fav_id = ''London-GB''\<rparr>] empty_storage)
     = Inr ([\<lparr>fav_name = ''London'', fav_country = ''GB'', fav_id = ''London-GB''\<rparr>],
            persist [\<lparr>fav_name = ''London'', fav_country = ''GB'', fav_id = ''London-GB''\<rparr>]
              (persist [\<lparr>fav_name = ''London'', fav_country = ''GB'', fav_id = ''London-GB''\<rparr>] empty_storage))"
    by blast
  moreover from c C1_initial_state [of
      \<open>\<lparr>items = [STORAGE_KEY \<mapsto> ''[{"id":"London-GB"''], writes = []\<rparr>\<close> _ \<open>''[{"id":"London-GB"''\<close> SyntaxError]
  have \<open>mount \<lparr>items = [STORAGE_KEY \<mapsto> ''[{"id":"London-GB"''], writes = []\<rparr> = Inl (Parse_failed SyntaxError)\<close>
    by blast
  ultimately show ?thesis by blast
qed

text \<open>
  C1 as stated fails: a record cut off in the middle is not JSON, and the initializer
  throws the \<open>SyntaxError\<close> instead of returning the empty list.
\<close>

theorem C1_corrupt_record_throws:
  \<open>initial_favorites \<lparr>items = [STORAGE_KEY \<mapsto> ''[{"id":"London-GB"''], writes = []\<rparr> = Inl SyntaxError\<close>
  by (simp add: initial_favorites_def getItem_def eval_defs)

text \<open>
  C5, as the code has it. A call of add or remove only queues its update: when the
  handler that made the calls returns, the storage and the rendered list are what they
  were. Then React renders once, and if the array was replaced, one effect writes the
  whole resulting list under the fixed key (one \<open>setItem\<close> for all the calls of the
  handler), as a text that parses back to the same records in the same order. If no
  call replaced the array, nothing is written. A remove always replaces the array, an
  add does when the id is absent. For a handler with one call: a remove (also of an
  absent id) and an add that inserts give one write of the new list, an add of an id
  that is present gives none.
\<close>

theorem C5_effect_persists:
  "snd (handle (make_calls us) (h, ls)) = ls
   \<and> favorites_state (fst (handle (make_calls us) (h, ls))) = favorites_state h
   \<and> (pending h = [] \<longrightarrow>
        favorites_state (fst (event (make_calls us) (h, ls))) = final_state us (favorites_state h)
      \<and> pending (fst (event (make_calls us) (h, ls))) = []
      \<and> writes (snd (event (make_calls us) (h, ls)))
          = writes ls @ (if replaced us (favorites_state h)
                         then [(STORAGE_KEY, JSON_stringify (final_state us (favorites_state h)))] else [])
      \<and> (replaced us (favorites_state h) \<longrightarrow>
           getItem (snd (event (make_calls us) (h, ls))) STORAGE_KEY
             = Some (JSON_stringify (final_state us (favorites_state h))))
      \<and> (\<not> replaced us (favorites_state h) \<longrightarrow>
           event (make_calls us) (h, ls) = (h, ls) \<and> final_state us (favorites_state h) = favorites_state h))
   \<and> event (call_removeFavorite i) (idle fs, ls)
       = (idle (removeFavorite i fs), persist (removeFavorite i fs) ls)
   \<and> event (call_addFavorite city) (idle fs, ls)
       = (if has_id (fav_id city) fs then (idle fs, ls)
          else (idle (addFavorite city fs), persist (addFavorite city fs) ls))
   \<and> writes (persist gs ls) = writes ls @ [(STORAGE_KEY, JSON_stringify gs)]
   \<and> getItem (persist gs ls) STORAGE_KEY = Some (JSON_stringify gs)
   \<and> replaced (us @ removeFavorite_updater i # vs) fs
   \<and> (replaced [addFavorite_updater city] fs \<longleftrightarrow> \<not> has_id (fav_id city) fs)
   \<and> (replaced (us @ vs) fs \<longleftrightarrow> replaced us fs \<or> replaced vs (final_state us fs))
   \<and> final_state (us @ vs) fs = final_state vs (final_state us fs)
   \<and> JSON_parse (JSON_stringify gs) = Inr (json_of_favorites gs)
   \<and> favorites_of_json (json_of_favorites gs) = Some gs"
proof -
  have queued: "snd (handle (make_calls us) (h, ls)) = ls
      \<and> favorites_state (fst (handle (make_calls us) (h, ls))) = favorites_state h"
    by (simp add: handle_def make_calls_fields)
  have rendered: "favorites_state (fst (event (make_calls us) (h, ls))) = final_state us (favorites_state h)
      \<and> pending (fst (event (make_calls us) (h, ls))) = []
      \<and> writes (snd (event (make_calls us) (h, ls)))
          = writes ls @ (if replaced us (favorites_state h)
                         then [(STORAGE_KEY, JSON_stringify (final_state us (favorites_state h)))] else [])
      \<and> (replaced us (favorites_state h) \<longrightarrow>
           getItem (snd (event (make_calls us) (h, ls))) STORAGE_KEY
             = Some (JSON_stringify (final_state us (favorites_state h))))
      \<and> (\<not> replaced us (favorites_state h) \<longrightarrow>
           event (make_calls us) (h, ls) = (h, ls) \<and> final_state us (favorites_state h) = favorites_state h)"
    if "pending h = []"
    using that
    by (simp add: event_calls [OF that] writes_persist getItem_persist final_state_unreplaced)
  have single: "event (call_removeFavorite i) (idle fs, ls)
        = (idle (removeFavorite i fs), persist (removeFavorite i fs) ls)
      \<and> event (call_addFavorite city) (idle fs, ls)
        = (if has_id (fav_id city) fs then (idle fs, ls)
           else (idle (addFavorite city fs), persist (addFavorite city fs) ls))"
    by (simp add: event_call_removeFavorite event_call_addFavorite addFavorite_eq)
  have written: "writes (persist gs ls) = writes ls @ [(STORAGE_KEY, JSON_stringify gs)]
      \<and> getItem (persist gs ls) STORAGE_KEY = Some (JSON_stringify gs)"
    by (simp add: writes_persist getItem_persist)
  have algebra: "replaced (us @ removeFavorite_updater i # vs) fs
      \<and> (replaced [addFavorite_updater city] fs \<longleftrightarrow> \<not> has_id (fav_id city) fs)
      \<and> (replaced (us @ vs) fs \<longleftrightarrow> replaced us fs \<or> replaced vs (final_state us fs))
      \<and> final_state (us @ vs) fs = final_state vs (final_state us fs)"
    by (intro conjI) (rule single_calls replaced_remove replaced_append final_state_append)+
  have serialized: "JSON_parse (JSON_stringify gs) = Inr (json_of_favorites gs)
      \<and> favorites_of_json (json_of_favorites gs) = Some gs"
    by (simp add: JSON_roundtrip favorites_of_json_inverse)
  from queued rendered single written algebra serialized show ?thesis
    by blast
qed

theorem C5_effect_persists_witness:
  \<open>pending (idle []) = []
   \<and> replaced [addFavorite_updater \<lparr>fav_name = ''London'', fav_country = ''GB'', fav_id = ''London-GB''\<rparr>,
                removeFavorite_updater ''Paris-FR''] []
   \<and> getItem (snd (event (make_calls
          [addFavorite_updater \<lparr>fav_name = ''London'', fav_country = ''GB'', fav_id = ''London-GB''\<rparr>,
           removeFavorite_updater ''Paris-FR''])
          (idle [], empty_storage))) STORAGE_KEY
       = Some ''[{"id":"London-GB","name":"London","country":"GB"}]''
   \<and> pending (idle [\<lparr>fav_name = ''London'', fav_country = ''GB'', fav_id = ''London-GB''\<rparr>]) = []
   \<and> \<not> replaced [addFavorite_updater \<lparr>fav_name = ''London'', fav_country = ''GB'', fav_id = ''London-GB''\<rparr>]
         [\<lparr>fav_name = ''London'', fav_country = ''GB'', fav_id = ''London-GB''\<rparr>]
   \<and> event (make_calls [addFavorite_updater \<lparr>fav_name = ''London'', fav_country = ''GB'', fav_id = ''London-GB''\<rparr>])
         (idle [\<lparr>fav_name = ''London'', fav_country = ''GB'', fav_id = ''London-GB''\<rparr>], empty_storage)
       = (idle [\<lparr>fav_name = ''London'', fav_country = ''GB'', fav_id = ''London-GB''\<rparr>], empty_storage)\<close>
proof -
  let ?london = "\<lparr>fav_name = ''London'', fav_country = ''GB'', fav_id = ''London-GB''\<rparr>"
  let ?us = "[addFavorite_updater ?london, removeFavorite_updater ''Paris-FR'']"
  have idle: "pending (idle []) = []" "pending (idle [?london]) = []"
    "favorites_state (idle []) = []" "favorites_state (idle [?london]) = [?london]"
    by (simp_all add: idle_def)
  have yes: "replaced ?us []"
    by (simp add: addFavorite_updater_def has_id_def)
  have no: "\<not> replaced [addFavorite_updater ?london] [?london]"
    by (simp add: addFavorite_updater_def has_id_def)
  have final: "final_state ?us [] = [?london]"
    by (simp add: addFavorite_updater_def removeFavorite_updater_def has_id_def next_value_def)
  have serialized: \<open>JSON_stringify [?london] = ''[{"id":"London-GB","name":"London","country":"GB"}]''\<close>
    by (simp add: JSON_stringify_def stringify_favorite_def quote_json_def quote_char_def code_unit_def)
  from C5_effect_persists [of ?us "idle []" empty_storage "''x''" "[]" ?london "[]" "[]"]
  have "pending (idle []) = [] \<longrightarrow> replaced ?us (favorites_state (idle [])) \<longrightarrow>
      getItem (snd (event (make_calls ?us) (idle [], empty_storage))) STORAGE_KEY
        = Some (JSON_stringify (final_state ?us (favorites_state (idle []))))"
    by (elim conjE) blast
  with idle yes final serialized
  have first: \<open>getItem (snd (event (make_calls ?us) (idle [], empty_storage))) STORAGE_KEY
      = Some ''[{"id":"London-GB","name":"London","country":"GB"}]''\<close>
    by simp
  from C5_effect_persists [of "[addFavorite_updater ?london]" "idle [?london]" empty_storage
      "''x''" "[]" ?london "[]" "[]"]
  have "pending (idle [?london]) = [] \<longrightarrow>
      \<not> replaced [addFavorite_updater ?london] (favorites_state (idle [?london])) \<longrightarrow>
      event (make_calls [addFavorite_updater ?london]) (idle [?london], empty_storage)
        = (idle [?london], empty_storage)"
    by (elim conjE) blast
  with idle no
  have second: "event (make_calls [addFavorite_updater ?london]) (idle [?london], empty_storage)
      = (idle [?london], empty_storage)"
    by simp
  from idle yes no first second show ?thesis
    by blast
qed

text \<open>
  C5 as stated fails in three ways. The storage is empty and an instance is mounted, so
  the storage holds the empty array. When the call that adds London returns, the
  storage still holds the empty array and has seen no other write: the write is not
  synchronous. A handler that adds London and then Paris gives one write, of both
  cities; the list with London alone is never stored: the writes are batched. And with
  London in the list and in the storage, adding London again writes nothing.
\<close>

theorem C5_write_is_deferred_and_batched:
  \<open>getItem (persist [] empty_storage) STORAGE_KEY = Some ''[]''
   \<and> getItem (snd (handle (call_addFavorite \<lparr>fav_name = ''London'', fav_country = ''GB'', fav_id = ''London-GB''\<rparr>)
                  (idle [], persist [] empty_storage))) STORAGE_KEY = Some ''[]''
   \<and> writes (snd (handle (call_addFavorite \<lparr>fav_name = ''London'', fav_country = ''GB'', fav_id = ''London-GB''\<rparr>)
                  (idle [], persist [] empty_storage)))
       = [(STORAGE_KEY, ''[]'')]
   \<and> writes (snd (event (\<lambda>h. call_addFavorite \<lparr>fav_name = ''Paris'', fav_country = ''FR'', fav_id = ''Paris-FR''\<rparr>
                          (call_addFavorite \<lparr>fav_name = ''London'', fav_country = ''GB'', fav_id = ''London-GB''\<rparr> h))
                  (idle [], persist [] empty_storage)))
       = [(STORAGE_KEY, ''[]''),
          (STORAGE_KEY, ''[{"id":"London-GB","name":"London","country":"GB"},{"id":"Paris-FR","name":"Paris","country":"FR"}]'')]
   \<and> writes (snd (event (call_addFavorite \<lparr>fav_name = ''London'', fav_country = ''GB'', fav_id = ''London-GB''\<rparr>)
                  (idle [\<lparr>fav_name = ''London'', fav_country = ''GB'', fav_id = ''London-GB''\<rparr>],
                   persist [\<lparr>fav_name = ''London'', fav_country = ''GB'', fav_id = ''London-GB''\<rparr>] empty_storage)))
       = [(STORAGE_KEY, ''[{"id":"London-GB","name":"London","country":"GB"}]'')]\<close>
  by (simp add: event_def handle_def render_def idle_def call_addFavorite_def setFavorites_def
      addFavorite_updater_def has_id_def next_value_def Let_def
      persist_def setItem_def getItem_def empty_storage_def
      JSON_stringify_def stringify_favorite_def quote_json_def quote_char_def code_unit_def
      STORAGE_KEY_def)

text \<open>
  C4 on the code: start with an empty storage and mount the components; the user
  clicks the heart of the weather card for London, GB. The state of the card has the
  city and the storage has it, but the state of the favorites list (and of App) is
  still empty: \<open>isFavorite\<close> is false there and the list shows nothing.
\<close>

theorem C4_instances_diverge:
  \<open>case mount_components empty_storage of
     Inl e \<Rightarrow> False
   | Inr s0 \<Rightarrow>
       card_favorites s0 = [] \<and> list_favorites s0 = [] \<and>
       (let s1 = card_toggle (weather_of ''London'' ''GB'') s0 in
          isFavorite (card_favorites s1) ''London-GB''
        \<and> \<not> isFavorite (list_favorites s1) ''London-GB''
        \<and> list_favorites s1 = []
        \<and> getItem (storage s1) STORAGE_KEY = Some ''[{"id":"London-GB","name":"London","country":"GB"}]'')\<close>
proof -
  have first: "mount empty_storage = Inr ([], persist [] empty_storage)"
    by (simp add: mount_def initial_favorites_def getItem_def empty_storage_def favorites_of_json_def)
  have stored: "getItem (persist [] (persist [] empty_storage)) STORAGE_KEY = Some ''[]''"
    by (simp add: getItem_persist JSON_stringify_def)
  have parsed: "JSON_parse ''[]'' = Inr (json_of_favorites [])"
    using JSON_roundtrip [of "[]"] by (simp add: JSON_stringify_def)
  have second: "mount (persist [] (persist [] empty_storage))
      = Inr ([], persist [] (persist [] (persist [] empty_storage)))"
    using stored parsed favorites_of_json_inverse [of "[]"]
    by (simp add: mount_def initial_favorites_def)
  have mounted: "mount_components empty_storage
      = Inr \<lparr>storage = persist [] (persist [] (persist [] (persist [] empty_storage))),
             app_favorites = [], card_favorites = [], list_favorites = []\<rparr>"
    by (simp add: mount_components_def first second)
  let ?ls = "persist [] (persist [] (persist [] (persist [] empty_storage)))"
  let ?london = "\<lparr>fav_name = ''London'', fav_country = ''GB'', fav_id = ''London-GB''\<rparr>"
  have toggled: "event (handleFavoriteToggle_calls (weather_of ''London'' ''GB'')) (idle [], ?ls)
      = (idle [?london], persist [?london] ?ls)"
    by (simp add: toggle_event handleFavoriteToggle_def handleFavoriteToggle_updater_def
        next_value_def isFavorite_def has_id_def favoriteId_def favorite_of_def weather_of_def
        addFavorite_updater_def)
  have serialized: \<open>JSON_stringify [?london] = ''[{"id":"London-GB","name":"London","country":"GB"}]''\<close>
    by (simp add: JSON_stringify_def stringify_favorite_def quote_json_def quote_char_def code_unit_def)
  show ?thesis
    by (simp add: mounted card_toggle_def toggled idle_fields getItem_persist serialized
        isFavorite_def has_id_def)
qed

section \<open>Properties of the search bar\<close>

lemma keystroke_then_wait:
  assumes "q \<noteq> query s"
  shows "calls (advance d (setQuery q s))
           = calls s @ (if 2 \<le> length q \<and> debounce_delay \<le> d then [(now s + debounce_delay, q)] else [])"
    and "query (advance d (setQuery q s)) = q"
  using assms
  by (auto simp: setQuery_def query_effect_def advance_def fire_timeout_def)

lemma script_calls:
  "edits (query s) script \<Longrightarrow>
   map snd (calls (search_run (script_events script) s)) = map snd (calls s) @ expected_calls script"
proof (induction script arbitrary: s)
  case Nil
  show ?case by simp
next
  case (Cons a script)
  obtain q d where a: "a = (q, d)" by (cases a)
  from Cons.prems a have ne: "q \<noteq> query s" and rest: "edits q script" by simp_all
  let ?s = "advance d (setQuery q s)"
  have "edits (query ?s) script"
    using rest keystroke_then_wait(2) [OF ne] by simp
  then have "map snd (calls (search_run (script_events script) ?s)) = map snd (calls ?s) @ expected_calls script"
    by (rule Cons.IH)
  then show ?case
    by (simp add: a keystroke_then_wait(1) [OF ne])
qed

lemma short_query:
  assumes "q \<noteq> query s" "length q < 2"
  shows "results (setQuery q s) = []" "\<not> isOpen (setQuery q s)" "timeoutRef (setQuery q s) = None"
    "calls (setQuery q s) = calls s" "calls (advance d (setQuery q s)) = calls s"
  using assms by (simp_all add: setQuery_def query_effect_def advance_def)

lemma restart_timer:
  assumes "q \<noteq> query s"
  shows "timeoutRef (setQuery q s) = (if length q < 2 then None else Some (now s + debounce_delay, q))"
  using assms by (simp add: setQuery_def query_effect_def)

text \<open>
  C3. For a script of keystrokes that each change the text, the calls of
  \<open>searchCities\<close> are exactly the texts of length at least 2 that stayed unedited for
  the 300 ms of the debounce delay, in order. A keystroke discards the pending timeout
  and, for a text of length at least 2, starts a new one for that text; for a shorter
  text it clears the results, closes the dropdown and leaves no timeout, so that no
  call follows however long the user waits.
\<close>

theorem C3_debounced_search:
  "(edits (query s) script \<longrightarrow>
      map snd (calls (search_run (script_events script) s)) = map snd (calls s) @ expected_calls script)
   \<and> (q \<noteq> query s \<longrightarrow>
        timeoutRef (setQuery q s) = (if length q < 2 then None else Some (now s + debounce_delay, q))
        \<and> calls (setQuery q s) = calls s)
   \<and> (q \<noteq> query s \<and> length q < 2 \<longrightarrow>
        results (setQuery q s) = [] \<and> \<not> isOpen (setQuery q s) \<and> \<not> dropdown_shown (setQuery q s)
        \<and> (\<forall>d. calls (advance d (setQuery q s)) = calls s))"
proof -
  have "calls (setQuery q s) = calls s"
    by (simp add: setQuery_def query_effect_def)
  then show ?thesis
    by (simp add: script_calls short_query restart_timer dropdown_shown_def)
qed

theorem C3_debounced_search_witness:
  "edits (query mounted_search_bar) [(''London'', 100), (''London,'', 300)]
   \<and> map snd (calls (search_run (script_events [(''London'', 100), (''London,'', 300)]) mounted_search_bar))
       = [''London,'']
   \<and> ''a'' \<noteq> query mounted_search_bar \<and> length ''a'' < 2
   \<and> calls (advance 100000 (setQuery ''a'' mounted_search_bar)) = []
   \<and> timeoutRef (setQuery ''a'' (setQuery ''ab'' mounted_search_bar)) = None"
proof -
  have q0: "query mounted_search_bar = []" and c0: "calls mounted_search_bar = []"
    by (simp_all add: mounted_search_bar_def query_effect_def)
  have e: "edits (query mounted_search_bar) [(''London'', 100), (''London,'', 300)]"
    by (simp add: q0)
  have a: "''a'' \<noteq> query mounted_search_bar \<and> length ''a'' < 2"
    by (simp add: q0)
  have b: "''a'' \<noteq> query (setQuery ''ab'' mounted_search_bar)"
    by (simp add: setQuery_def query_effect_def q0)
  from e C3_debounced_search [of mounted_search_bar "[(''London'', 100), (''London,'', 300)]"]
  have "map snd (calls (search_run (script_events [(''London'', 100), (''London,'', 300)]) mounted_search_bar))
      = map snd (calls mounted_search_bar) @ expected_calls [(''London'', 100), (''London,'', 300)]"
    by blast
  then have london: "map snd (calls (search_run (script_events [(''London'', 100), (''London,'', 300)]) mounted_search_bar))
      = [''London,'']"
    by (simp add: c0 debounce_delay_def)
  from a C3_debounced_search [of mounted_search_bar _ "''a''"]
  have "calls (advance 100000 (setQuery ''a'' mounted_search_bar)) = calls mounted_search_bar"
    by blast
  then have single: "calls (advance 100000 (setQuery ''a'' mounted_search_bar)) = []"
    by (simp add: c0)
  from b C3_debounced_search [of "setQuery ''ab'' mounted_search_bar" _ "''a''"]
  have "timeoutRef (setQuery ''a'' (setQuery ''ab'' mounted_search_bar)) = None"
    by simp
  with e london a single show ?thesis by blast
qed

lemma respond_failure:
  assumes "n \<in> set (in_flight s)"
  shows "respond n (Inl e) s
     = s\<lparr>in_flight := removeAll n (in_flight s), console := console s @ [e], results := [], isLoading := False\<rparr>"
  using assms by (simp add: respond_def)

lemma removeAll_only: "set xs \<subseteq> {n} \<Longrightarrow> removeAll n xs = []"
  by (induction xs) auto

text \<open>
  C9, as the code has it. When the answer to a call in flight is a failure, the error
  is logged and nothing else is told to anyone (the selection callback is not called,
  the query stays), the results are cleared, the loading flag is reset and the
  dropdown is not shown (\<open>isOpen\<close> itself keeps its value). A pending timeout and the
  other calls in flight stay as they are; the controller is idle when there are none.
\<close>

theorem C9_search_failure:
  "n \<in> set (in_flight s) \<longrightarrow>
     respond n (Inl e) s
       = s\<lparr>in_flight := removeAll n (in_flight s), console := console s @ [e], results := [], isLoading := False\<rparr>
     \<and> results (respond n (Inl e) s) = []
     \<and> \<not> dropdown_shown (respond n (Inl e) s)
     \<and> \<not> isLoading (respond n (Inl e) s)
     \<and> console (respond n (Inl e) s) = console s @ [e]
     \<and> selected (respond n (Inl e) s) = selected s
     \<and> query (respond n (Inl e) s) = query s
     \<and> isOpen (respond n (Inl e) s) = isOpen s
     \<and> timeoutRef (respond n (Inl e) s) = timeoutRef s
     \<and> (timeoutRef s = None \<and> set (in_flight s) = {n} \<longrightarrow> phase_of (respond n (Inl e) s) = Idle)"
  by (auto simp: respond_failure dropdown_shown_def phase_of_def removeAll_only [of _ n])

theorem C9_search_failure_witness:
  "0 \<in> set (in_flight (search_run [Keystroke ''Lo'', Advance 300] mounted_search_bar))
   \<and> phase_of (search_run [Keystroke ''Lo'', Advance 300] mounted_search_bar) = Searching
   \<and> phase_of (respond 0 (Inl network_error) (search_run [Keystroke ''Lo'', Advance 300] mounted_search_bar)) = Idle
   \<and> console (respond 0 (Inl network_error) (search_run [Keystroke ''Lo'', Advance 300] mounted_search_bar))
       = [network_error]"
proof -
  let ?s = "search_run [Keystroke ''Lo'', Advance 300] mounted_search_bar"
  have s: "?s = \<lparr>query = ''Lo'', results = [], isOpen = False, isLoading = True,
       timeoutRef = None, now = 300, calls = [(300, ''Lo'')], in_flight = [0], console = [], selected = []\<rparr>"
    by (simp add: mounted_search_bar_def query_effect_def setQuery_def advance_def fire_timeout_def debounce_delay_def)
  have m: "0 \<in> set (in_flight ?s)" and t: "timeoutRef ?s = None \<and> set (in_flight ?s) = {0}"
    and c: "console ?s = []" and p: "phase_of ?s = Searching"
    unfolding s by (simp_all add: phase_of_def)
  from m t C9_search_failure [of 0 ?s network_error]
  have "phase_of (respond 0 (Inl network_error) ?s) = Idle
      \<and> console (respond 0 (Inl network_error) ?s) = console ?s @ [network_error]"
    by blast
  with m p c show ?thesis by simp
qed

text \<open>
  C9 as stated fails when a newer text is waiting for its timeout: the call for
  \<open>Lo\<close> fails after the user typed \<open>Lon\<close>; the controller is debouncing, not idle,
  and 300 ms later it calls for \<open>Lon\<close> without any further keystroke.
\<close>

theorem C9_failure_while_debouncing:
  "phase_of (search_run [Keystroke ''Lo'', Advance 300, Keystroke ''Lon'', Respond 0 (Inl network_error)]
      mounted_search_bar) = Debouncing
   \<and> map snd (calls (search_run [Keystroke ''Lo'', Advance 300, Keystroke ''Lon'', Respond 0 (Inl network_error),
      Advance 300] mounted_search_bar)) = [''Lo'', ''Lon'']"
  by (simp add: mounted_search_bar_def query_effect_def setQuery_def advance_def fire_timeout_def
      debounce_delay_def respond_def phase_of_def)

section \<open>Properties of the display and of the API client\<close>

text \<open>
  C10. \<open>displayTemp\<close> is the identity for the unit \<open>C\<close> and \<open>convertToFahrenheit\<close>
  for the unit \<open>F\<close>; the toggle changes the unit and nothing else of the state of
  App, and toggling twice gives the state back.
\<close>

theorem C10_unit_toggle_is_display_only:
  "displayTemp C t = t
   \<and> displayTemp F t = convertToFahrenheit t
   \<and> currentWeather (onUnitToggle s) = currentWeather s
   \<and> forecast (onUnitToggle s) = forecast s
   \<and> loading (onUnitToggle s) = loading s
   \<and> error (onUnitToggle s) = error s
   \<and> unit (onUnitToggle s) = (if unit s = C then F else C)
   \<and> onUnitToggle (onUnitToggle s) = s
   \<and> card_temperatures C w = [temperature w, feels_like w, temp_max w, temp_min w]
   \<and> forecast_temperatures C fc = map (\<lambda>i. (fc_temp_max i, fc_temp_min i)) fc"
  by (cases "unit s")
     (simp_all add: displayTemp_def onUnitToggle_def card_temperatures_def forecast_temperatures_def)

lemma get_rejected:
  "apiClient_get (Responds ms r) =
     (if timeout < ms then Inl timeout_error
      else if validateStatus (status r) then Inr (body r) else Inl (status_error r))"
  by (simp add: apiClient_get_def)

text \<open>
  C8, as the code has it. Each operation is one GET through the client with the
  timeout of 10000 ms and returns the body of an accepted response. A response
  with another status rejects with an error that carries the response: its status
  and the detail of its body when there is one. A failed connection rejects with an
  error without a response, so without a status. A call that is not answered within
  the timeout rejects with the same kind of error, told apart by its code
  \<open>ECONNABORTED\<close>, again without a status.
\<close>

theorem C8_api_errors:
  "getCurrentWeather net city
     = apiClient_get (net \<lparr>path = ''/api/weather/'' @ encodeURIComponent city, params = []\<rparr>)
   \<and> getForecast net city
     = apiClient_get (net \<lparr>path = ''/api/weather/'' @ encodeURIComponent city @ ''/forecast'', params = []\<rparr>)
   \<and> searchCities net q = apiClient_get (net \<lparr>path = ''/api/cities/search'', params = [(''q'', q)]\<rparr>)
   \<and> (ms \<le> timeout \<and> validateStatus (status r) \<longrightarrow> apiClient_get (Responds ms r) = Inr (body r))
   \<and> (ms \<le> timeout \<and> \<not> validateStatus (status r) \<longrightarrow>
        (\<exists>e. apiClient_get (Responds ms r) = Inl e \<and> upstream_status e = Some (status r)
           \<and> upstream_detail e = (case body r of Detail d \<Rightarrow> Some d | _ \<Rightarrow> None)
           \<and> \<not> is_timeout e))
   \<and> (\<exists>e. apiClient_get (Connection_fails :: 'a network) = Inl e \<and> upstream_status e = None
           \<and> upstream_detail e = None \<and> \<not> is_timeout e)
   \<and> (\<exists>e. apiClient_get (Never_answers :: 'a network) = Inl e \<and> is_timeout e \<and> upstream_status e = None)
   \<and> (timeout < ms \<longrightarrow>
        (\<exists>e. apiClient_get (Responds ms r) = Inl e \<and> is_timeout e \<and> upstream_status e = None))
   \<and> timeout = 10000"
  by (auto simp: getCurrentWeather_def getForecast_def searchCities_def get_rejected
      apiClient_get_def upstream_status_def upstream_detail_def is_timeout_def status_error_def
      timeout_error_def network_error_def status_code_def timeout_def)

theorem C8_api_errors_witness:
  "(120::nat) \<le> timeout \<and> \<not> validateStatus (status \<lparr>status = 404, body = (Detail ''City not found'' :: CurrentWeather body)\<rparr>)
   \<and> (\<exists>e. apiClient_get (Responds 120 \<lparr>status = 404, body = (Detail ''City not found'' :: CurrentWeather body)\<rparr>) = Inl e
         \<and> upstream_status e = Some 404 \<and> upstream_detail e = Some ''City not found'' \<and> \<not> is_timeout e)
   \<and> timeout < (10001::nat)
   \<and> (\<exists>e. apiClient_get (Responds 10001 \<lparr>status = 200, body = (No_detail :: CurrentWeather body)\<rparr>) = Inl e
         \<and> is_timeout e \<and> upstream_status e = None)"
proof -
  let ?r = "\<lparr>status = 404, body = (Detail ''City not found'' :: CurrentWeather body)\<rparr>"
  let ?late = "\<lparr>status = 200, body = (No_detail :: CurrentWeather body)\<rparr>"
  have a: "(120::nat) \<le> timeout \<and> \<not> validateStatus (status ?r)"
    by (simp add: timeout_def validateStatus_def)
  have b: "timeout < (10001::nat)"
    by (simp add: timeout_def)
  from C8_api_errors [of "\<lambda>r. Connection_fails" "''London''" "''Lo''" 120 ?r]
  have "120 \<le> timeout \<and> \<not> validateStatus (status ?r) \<longrightarrow>
        (\<exists>e. apiClient_get (Responds 120 ?r) = Inl e \<and> upstream_status e = Some (status ?r)
           \<and> upstream_detail e = (case body ?r of Detail d \<Rightarrow> Some d | _ \<Rightarrow> None)
           \<and> \<not> is_timeout e)"
    by (elim conjE)
  with a have first: "\<exists>e. apiClient_get (Responds 120 ?r) = Inl e
         \<and> upstream_status e = Some 404 \<and> upstream_detail e = Some ''City not found'' \<and> \<not> is_timeout e"
    by simp
  from C8_api_errors [of "\<lambda>r. Connection_fails" "''London''" "''Lo''" 10001 ?late]
  have "timeout < 10001 \<longrightarrow>
        (\<exists>e. apiClient_get (Responds 10001 ?late) = Inl e \<and> is_timeout e \<and> upstream_status e = None)"
    by (elim conjE)
  with b have second: "\<exists>e. apiClient_get (Responds 10001 ?late) = Inl e \<and> is_timeout e \<and> upstream_status e = None"
    by blast
  from a b first second show ?thesis by blast
qed

text \<open>
  C8 as stated fails for the calls that get no response: the error of a failed
  connection and the error of a timeout carry no upstream status.
\<close>

theorem C8_network_failure_has_no_status:
  "getCurrentWeather (\<lambda>r. Connection_fails :: CurrentWeather network) ''London'' = Inl network_error
   \<and> upstream_status (network_error :: CurrentWeather axios_error) = None
   \<and> getForecast (\<lambda>r. Never_answers :: Forecast network) ''London'' = Inl timeout_error
   \<and> upstream_status (timeout_error :: Forecast axios_error) = None"
  by (simp add: getCurrentWeather_def getForecast_def apiClient_get_def upstream_status_def
      network_error_def timeout_error_def)

section \<open>Properties of the number arithmetic\<close>

lemma pow2_powi: "pow2 e = 2 powi e"
  by (simp add: pow2_def power_int_def field_simps)

lemma pow2_pos: "0 < pow2 e"
  by (simp add: pow2_powi)

lemma pow2_add: "pow2 (a + b) = pow2 a * pow2 b"
  by (simp add: pow2_powi power_int_add)

lemma pow2_diff: "pow2 (a - b) = pow2 a / pow2 b"
  by (simp add: pow2_powi power_int_diff)

lemma pow2_mono: "a \<le> b \<Longrightarrow> pow2 a \<le> pow2 b"
  by (simp add: pow2_powi power_int_increasing)

lemma pow2_nat: "0 \<le> e \<Longrightarrow> pow2 e = 2 ^ nat e"
  by (simp add: pow2_def)

lemma bit_length_bounds:
  "0 < n \<Longrightarrow> 1 \<le> bit_length n \<and> 2 ^ nat (bit_length n - 1) \<le> n \<and> n < 2 ^ nat (bit_length n)"
proof (induction n rule: bit_length.induct)
  case (1 n)
  show ?case
  proof (cases "n div 2 = 0")
    case True
    with "1.prems" have n1: "n = 1" by presburger
    have "bit_length 1 = 1"
      by (simp add: bit_length.simps [of 1] bit_length.simps [of 0])
    with n1 show ?thesis by simp
  next
    case False
    with "1.prems" have pos: "0 < n div 2" by presburger
    from "1.IH" [OF _ pos] "1.prems"
    have ih: "1 \<le> bit_length (n div 2)" "2 ^ nat (bit_length (n div 2) - 1) \<le> n div 2"
      "n div 2 < 2 ^ nat (bit_length (n div 2))"
      by simp_all
    have bl: "bit_length n = 1 + bit_length (n div 2)"
      using "1.prems" by (simp add: bit_length.simps [of n])
    have e1: "nat (bit_length n - 1) = Suc (nat (bit_length (n div 2) - 1))"
      using ih(1) bl by simp
    have e2: "nat (bit_length n) = Suc (nat (bit_length (n div 2)))"
      using ih(1) bl by simp
    have lo: "(2::int) ^ nat (bit_length n - 1) \<le> n"
      using ih(2) unfolding e1 by simp
    have hi: "n < (2::int) ^ nat (bit_length n)"
      using ih(3) unfolding e2 by simp
    from bl ih(1) lo hi show ?thesis by simp
  qed
qed

lemma floor_log2_le:
  assumes "0 < m"
  shows "pow2 (floor_log2 m) \<le> m"
proof -
  obtain p q where pq: "quotient_of m = (p, q)" by (cases "quotient_of m")
  have qpos: "0 < q" using pq by (rule quotient_of_denom_pos)
  have m: "m = of_int p / of_int q" using pq by (rule quotient_of_div)
  have ppos: "0 < p"
    using assms qpos unfolding m by (simp add: zero_less_divide_iff)
  let ?l = "bit_length p - bit_length q"
  show ?thesis
  proof (cases "pow2 ?l \<le> m")
    case True
    then show ?thesis by (simp add: floor_log2_def pq)
  next
    case False
    have bp: "1 \<le> bit_length p" "2 ^ nat (bit_length p - 1) \<le> p"
      using bit_length_bounds [OF ppos] by simp_all
    have bq: "1 \<le> bit_length q" "q < 2 ^ nat (bit_length q)"
      using bit_length_bounds [OF qpos] by simp_all
    have "pow2 (bit_length p - 1) = of_int (2 ^ nat (bit_length p - 1))"
      using bp(1) by (simp add: pow2_nat)
    also have "\<dots> \<le> of_int p"
      using bp(2) by (simp only: of_int_le_iff)
    finally have num: "pow2 (bit_length p - 1) \<le> of_int p" .
    have "(of_int q :: rat) \<le> of_int (2 ^ nat (bit_length q))"
      using bq(2) by (simp only: of_int_le_iff)
    also have "\<dots> = pow2 (bit_length q)"
      using bq(1) by (simp add: pow2_nat)
    finally have den: "of_int q \<le> pow2 (bit_length q)" .
    have "pow2 (?l - 1) = pow2 (bit_length p - 1) / pow2 (bit_length q)"
      by (simp add: pow2_diff [symmetric] algebra_simps)
    also have "\<dots> \<le> of_int p / of_int q"
      using num den qpos pow2_pos [of "bit_length p - 1"]
      by (intro frac_le) simp_all
    finally have "pow2 (?l - 1) \<le> m" by (simp add: m)
    with False show ?thesis by (simp add: floor_log2_def pq)
  qed
qed

lemma round_half_even_error: "\<bar>of_int (round_half_even x) - x\<bar> \<le> 1 / 2"
proof -
  have "of_int \<lfloor>x\<rfloor> \<le> x" "x < of_int \<lfloor>x\<rfloor> + 1"
    by linarith+
  then show ?thesis
    by (auto simp: round_half_even_def Let_def)
qed

lemma round_half_even_nonneg: "0 \<le> x \<Longrightarrow> 0 \<le> round_half_even x"
  by (auto simp: round_half_even_def Let_def)

lemma pow2_one: "pow2 1 = 2"
  by (simp add: pow2_def)

lemma pow2_values:
  "pow2 (- 53) = unit_roundoff" "pow2 (- 1075) = tiny" "pow2 1023 = 2 ^ 1023" "pow2 1024 = 2 ^ 1024"
  by (simp_all add: pow2_def unit_roundoff_def tiny_def)

lemma nearest_double_error:
  assumes "0 \<le> m"
  shows "0 \<le> nearest_double m \<and> \<bar>nearest_double m - m\<bar> \<le> unit_roundoff * m + tiny"
proof (cases "m = 0")
  case True
  then show ?thesis by (simp add: nearest_double_def unit_roundoff_def tiny_def)
next
  case False
  with assms have mpos: "0 < m" by simp
  define e where "e = max (floor_log2 m - 52) (- 1074)"
  define n where "n = round_half_even (m / pow2 e)"
  define r where "r = of_int n * pow2 e"
  have nearest: "nearest_double m = r"
    using False by (simp add: nearest_double_def Let_def e_def [symmetric] n_def [symmetric] r_def [symmetric])
  have pe: "0 < pow2 e" by (rule pow2_pos)
  have "0 \<le> m / pow2 e" using mpos pe by simp
  then have npos: "0 \<le> n" unfolding n_def by (rule round_half_even_nonneg)
  then have rpos: "0 \<le> r" unfolding r_def using pe by simp
  have "r - m = (of_int n - m / pow2 e) * pow2 e"
    using pe by (simp add: r_def field_simps)
  then have "\<bar>r - m\<bar> = \<bar>of_int n - m / pow2 e\<bar> * \<bar>pow2 e\<bar>"
    by (simp only: abs_mult)
  also have "\<dots> = \<bar>of_int n - m / pow2 e\<bar> * pow2 e"
    using pe by simp
  also have "\<dots> \<le> (1 / 2) * pow2 e"
    using round_half_even_error [of "m / pow2 e"] pe unfolding n_def
    by (intro mult_right_mono) simp_all
  also have "\<dots> = pow2 (e - 1)"
    by (simp add: pow2_diff pow2_one)
  finally have err: "\<bar>r - m\<bar> \<le> pow2 (e - 1)" .
  have half: "pow2 (e - 1) \<le> unit_roundoff * m + tiny"
  proof (cases "- 1074 \<le> floor_log2 m - 52")
    case True
    then have "e = floor_log2 m - 52" by (simp add: e_def)
    then have "pow2 (e - 1) = pow2 (floor_log2 m + (- 53))" by simp
    also have "\<dots> = pow2 (floor_log2 m) * unit_roundoff"
      by (simp only: pow2_add pow2_values)
    also have "\<dots> \<le> m * unit_roundoff"
      using floor_log2_le [OF mpos] by (intro mult_right_mono) (simp_all add: unit_roundoff_def)
    finally show ?thesis by (simp add: tiny_def mult.commute)
  next
    case False
    then have "e = - 1074" by (simp add: e_def)
    then have "pow2 (e - 1) = tiny" by (simp add: pow2_values)
    then show ?thesis using mpos by (simp add: unit_roundoff_def)
  qed
  from err half have "\<bar>r - m\<bar> \<le> unit_roundoff * m + tiny" by linarith
  with rpos nearest show ?thesis by simp
qed

lemma round_magnitude_error:
  assumes "0 \<le> m" "m \<le> 2 ^ 1023"
  shows "\<exists>r. round_magnitude m = Some r \<and> 0 \<le> r \<and> \<bar>r - m\<bar> \<le> unit_roundoff * m + tiny"
proof -
  from nearest_double_error [OF assms(1)]
  have rpos: "0 \<le> nearest_double m"
    and bound: "\<bar>nearest_double m - m\<bar> \<le> unit_roundoff * m + tiny" by simp_all
  have "nearest_double m \<le> m + unit_roundoff * m + tiny" using bound by linarith
  also have "\<dots> \<le> 2 ^ 1023 + unit_roundoff * 2 ^ 1023 + tiny"
    using assms(2) by (simp add: unit_roundoff_def)
  also have "\<dots> < 2 ^ 1024"
    by (simp add: unit_roundoff_def tiny_def)
  finally have "\<not> pow2 1024 \<le> nearest_double m" by (simp add: pow2_values)
  then have "round_magnitude m = Some (nearest_double m)"
    by (simp add: round_magnitude_def Let_def)
  with rpos bound show ?thesis by blast
qed

lemma round_magnitude_overflow:
  assumes "2 ^ 1025 \<le> m"
  shows "round_magnitude m = None"
proof -
  from assms have "0 \<le> m" by (rule order_trans [rotated]) simp
  from nearest_double_error [OF this]
  have bound: "\<bar>nearest_double m - m\<bar> \<le> unit_roundoff * m + tiny" by simp
  have u: "unit_roundoff = 1 / 9007199254740992" by (simp add: unit_roundoff_def)
  have t: "tiny \<le> 1" by (simp add: tiny_def)
  define K :: rat where "K = 2 ^ 1024"
  have big: "(2::rat) ^ 1025 = 2 * K" by (simp add: K_def)
  have two: "2 \<le> K" by (simp add: K_def)
  have "K \<le> nearest_double m"
    using bound assms t two unfolding u big by linarith
  then have "2 ^ 1024 \<le> nearest_double m" by (simp add: K_def)
  then show ?thesis
    by (simp add: round_magnitude_def Let_def pow2_values)
qed

lemma make_number_error:
  assumes "0 \<le> m" "m \<le> 2 ^ 1023"
  shows "\<exists>r. make_number a m = Finite a r \<and> 0 \<le> r \<and> \<bar>r - m\<bar> \<le> unit_roundoff * m + tiny"
  using round_magnitude_error [OF assms] by (auto simp: make_number_def)

lemma signed_diff: "\<bar>signed a r - signed a m\<bar> = \<bar>r - m\<bar>"
  by (simp add: signed_def abs_minus_commute)

lemma abs_signed: "0 \<le> m \<Longrightarrow> \<bar>signed a m\<bar> = m"
  by (simp add: signed_def)

lemma times_const_error:
  assumes "0 \<le> m" "0 \<le> k" "m * k \<le> 2 ^ 1023"
  shows "\<exists>r. num_mul (Finite a m) (Finite False k) = Finite a r \<and> 0 \<le> r
           \<and> \<bar>signed a r - signed a m * k\<bar> \<le> unit_roundoff * \<bar>signed a m * k\<bar> + tiny"
proof -
  from assms have "0 \<le> m * k" by simp
  from make_number_error [OF this assms(3), of a]
  obtain r where r: "make_number a (m * k) = Finite a r" "0 \<le> r"
    "\<bar>r - m * k\<bar> \<le> unit_roundoff * (m * k) + tiny" by blast
  have "signed a m * k = signed a (m * k)" by (simp add: signed_def)
  then have "\<bar>signed a r - signed a m * k\<bar> = \<bar>r - m * k\<bar>"
    and "\<bar>signed a m * k\<bar> = m * k"
    using \<open>0 \<le> m * k\<close> by (simp_all add: signed_diff abs_signed)
  with r show ?thesis by simp
qed

lemma divide_const_error:
  assumes "0 \<le> m" "0 < k" "m / k \<le> 2 ^ 1023"
  shows "\<exists>r. num_div (Finite a m) (Finite False k) = Finite a r \<and> 0 \<le> r
           \<and> \<bar>signed a r - signed a m / k\<bar> \<le> unit_roundoff * \<bar>signed a m / k\<bar> + tiny"
proof -
  from assms have nonneg: "0 \<le> m / k" by simp
  from make_number_error [OF this assms(3), of a]
  obtain r where r: "make_number a (m / k) = Finite a r" "0 \<le> r"
    "\<bar>r - m / k\<bar> \<le> unit_roundoff * (m / k) + tiny" by blast
  have "signed a m / k = signed a (m / k)" by (simp add: signed_def)
  then have "\<bar>signed a r - signed a m / k\<bar> = \<bar>r - m / k\<bar>"
    and "\<bar>signed a m / k\<bar> = m / k"
    using nonneg by (simp_all add: signed_diff abs_signed)
  with r assms(2) show ?thesis by simp
qed

lemma plus_error:
  assumes "\<bar>signed a m + signed b n\<bar> \<le> 2 ^ 1023"
  shows "\<exists>c r. num_add (Finite a m) (Finite b n) = Finite c r \<and> 0 \<le> r
           \<and> \<bar>signed c r - (signed a m + signed b n)\<bar>
               \<le> unit_roundoff * \<bar>signed a m + signed b n\<bar> + tiny"
proof (cases "signed a m + signed b n = 0")
  case True
  then show ?thesis by (simp add: signed_def tiny_def)
next
  case False
  define x where "x = signed a m + signed b n"
  have "0 \<le> \<bar>x\<bar>" by simp
  from make_number_error [OF this, of "x < 0"] assms
  obtain r where r: "make_number (x < 0) \<bar>x\<bar> = Finite (x < 0) r" "0 \<le> r"
    "\<bar>r - \<bar>x\<bar>\<bar> \<le> unit_roundoff * \<bar>x\<bar> + tiny" unfolding x_def by blast
  have "\<bar>signed (x < 0) r - x\<bar> = \<bar>r - \<bar>x\<bar>\<bar>"
  proof (cases "x < 0")
    case True
    then have "signed (x < 0) r - x = - (r - \<bar>x\<bar>)" by (simp add: signed_def)
    then show ?thesis by (simp only: abs_minus_cancel)
  next
    case False
    then show ?thesis by (simp add: signed_def)
  qed
  with r False show ?thesis
    unfolding x_def by (simp add: Let_def)
qed

lemma minus_const_error:
  assumes "\<bar>signed a m - k\<bar> \<le> 2 ^ 1023" 
  shows "\<exists>c r. num_sub (Finite a m) (Finite False k) = Finite c r \<and> 0 \<le> r
           \<and> \<bar>signed c r - (signed a m - k)\<bar> \<le> unit_roundoff * \<bar>signed a m - k\<bar> + tiny"
proof -
  have "signed a m + signed True k = signed a m - k" by (simp add: signed_def)
  with plus_error [of a m True k] assms show ?thesis
    by (simp add: num_sub_def)
qed

lemma roundtrip_error:
  assumes m0: "0 \<le> m" and mM: "m \<le> 2 ^ 1000"
  shows "\<exists>b r. convertToCelsius (convertToFahrenheit (Finite a m)) = Finite b r \<and> 0 \<le> r
           \<and> \<bar>signed b r - signed a m\<bar> \<le> m / 2 ^ 50 + 1 / 2 ^ 47"
proof -
  define c where "c = signed a m"
  have cm: "\<bar>c\<bar> = m" unfolding c_def using m0 by (rule abs_signed)
  have c1: "c \<le> m" and c2: "- c \<le> m" using cm by linarith+
  define M :: rat where "M = 2 ^ 1000"
  have M1: "1024 \<le> M" unfolding M_def by simp
  have mM': "m \<le> M" using mM by (simp add: M_def)
  have lim: "(2::rat) ^ 1023 = 8388608 * M" by (simp add: M_def)
  have u: "unit_roundoff = 1 / 9007199254740992" by (simp add: unit_roundoff_def)
  have t: "0 \<le> tiny" "tiny \<le> 1 / 9223372036854775808" by (simp_all add: tiny_def)

  have "m * 9 \<le> 2 ^ 1023" using mM' M1 unfolding lim by linarith
  from times_const_error [OF m0 _ this, of a]
  obtain r1 where r1: "num_mul (Finite a m) (Finite False 9) = Finite a r1" "0 \<le> r1"
    "\<bar>signed a r1 - c * 9\<bar> \<le> unit_roundoff * \<bar>c * 9\<bar> + tiny"
    unfolding c_def by auto
  define V1 where "V1 = signed a r1"
  have a1: "\<bar>V1\<bar> = r1" unfolding V1_def using r1(2) by (rule abs_signed)
  define A1 where "A1 = \<bar>c * 9\<bar>"
  have e1: "\<bar>V1 - c * 9\<bar> \<le> A1 / 9007199254740992 + tiny"
    using r1(3) unfolding V1_def u A1_def by simp
  have A1: "A1 \<le> 9 * m" unfolding A1_def using c1 c2 by (intro abs_leI) linarith+
  have u1: "V1 - c * 9 \<le> A1 / 9007199254740992 + tiny"
    and l1: "c * 9 - V1 \<le> A1 / 9007199254740992 + tiny" using e1 by linarith+
  have B1: "V1 \<le> 91 / 10 * m + 1" "- V1 \<le> 91 / 10 * m + 1"
    using u1 l1 A1 c1 c2 m0 t by linarith+
  have b1: "r1 \<le> 10 * M" using a1 B1 m0 mM' M1 by linarith

  have "r1 / 5 \<le> 2 ^ 1023" using b1 M1 unfolding lim by linarith
  from divide_const_error [OF r1(2) _ this, of a]
  obtain r2 where r2: "num_div (Finite a r1) (Finite False 5) = Finite a r2" "0 \<le> r2"
    "\<bar>signed a r2 - V1 / 5\<bar> \<le> unit_roundoff * \<bar>V1 / 5\<bar> + tiny"
    unfolding V1_def by auto
  define V2 where "V2 = signed a r2"
  have a2: "\<bar>V2\<bar> = r2" unfolding V2_def using r2(2) by (rule abs_signed)
  define A2 where "A2 = \<bar>V1 / 5\<bar>"
  have e2: "\<bar>V2 - V1 / 5\<bar> \<le> A2 / 9007199254740992 + tiny"
    using r2(3) unfolding V2_def u A2_def by simp
  have A2: "A2 \<le> 91 / 50 * m + 1" unfolding A2_def using B1 m0 by (intro abs_leI) linarith+
  have u2: "V2 - V1 / 5 \<le> A2 / 9007199254740992 + tiny"
    and l2: "V1 / 5 - V2 \<le> A2 / 9007199254740992 + tiny" using e2 by linarith+
  have B2: "V2 \<le> 92 / 50 * m + 2" "- V2 \<le> 92 / 50 * m + 2"
    using u2 l2 A2 B1 m0 t by linarith+
  have b2: "r2 \<le> 4 * M" using a2 B2 m0 mM' M1 by linarith

  have s32: "signed False 32 = 32" by (simp add: signed_def)
  have "\<bar>signed a r2 + signed False 32\<bar> \<le> 2 ^ 1023"
    using B2 m0 mM' M1 unfolding lim s32 V2_def [symmetric] by linarith
  from plus_error [OF this]
  obtain c3 r3 where r3: "num_add (Finite a r2) (Finite False 32) = Finite c3 r3" "0 \<le> r3"
    "\<bar>signed c3 r3 - (V2 + 32)\<bar> \<le> unit_roundoff * \<bar>V2 + 32\<bar> + tiny"
    unfolding s32 V2_def by auto
  define V3 where "V3 = signed c3 r3"
  define A3 where "A3 = \<bar>V2 + 32\<bar>"
  have e3: "\<bar>V3 - (V2 + 32)\<bar> \<le> A3 / 9007199254740992 + tiny"
    using r3(3) unfolding V3_def u A3_def by simp
  have A3: "A3 \<le> 92 / 50 * m + 34" unfolding A3_def using B2 m0 by (intro abs_leI) linarith+
  have u3: "V3 - (V2 + 32) \<le> A3 / 9007199254740992 + tiny"
    and l3: "V2 + 32 - V3 \<le> A3 / 9007199254740992 + tiny" using e3 by linarith+
  have B3: "V3 - 32 \<le> 93 / 50 * m + 3" "- (V3 - 32) \<le> 93 / 50 * m + 3"
    using u3 l3 A3 B2 m0 t by linarith+
  have F: "convertToFahrenheit (Finite a m) = Finite c3 r3"
    by (simp only: convertToFahrenheit_def r1(1) r2(1) r3(1))

  have "\<bar>signed c3 r3 - 32\<bar> \<le> 2 ^ 1023"
    using B3 m0 mM' M1 unfolding lim V3_def [symmetric] by linarith
  from minus_const_error [OF this]
  obtain c4 r4 where r4: "num_sub (Finite c3 r3) (Finite False 32) = Finite c4 r4" "0 \<le> r4"
    "\<bar>signed c4 r4 - (V3 - 32)\<bar> \<le> unit_roundoff * \<bar>V3 - 32\<bar> + tiny"
    unfolding V3_def by auto
  define V4 where "V4 = signed c4 r4"
  have a4: "\<bar>V4\<bar> = r4" unfolding V4_def using r4(2) by (rule abs_signed)
  define A4 where "A4 = \<bar>V3 - 32\<bar>"
  have e4: "\<bar>V4 - (V3 - 32)\<bar> \<le> A4 / 9007199254740992 + tiny"
    using r4(3) unfolding V4_def u A4_def by simp
  have A4: "A4 \<le> 93 / 50 * m + 3" unfolding A4_def using B3 by (intro abs_leI) linarith+
  have u4: "V4 - (V3 - 32) \<le> A4 / 9007199254740992 + tiny"
    and l4: "V3 - 32 - V4 \<le> A4 / 9007199254740992 + tiny" using e4 by linarith+
  have B4: "V4 \<le> 94 / 50 * m + 4" "- V4 \<le> 94 / 50 * m + 4"
    using u4 l4 A4 B3 m0 t by linarith+
  have b4: "r4 \<le> 5 * M" using a4 B4 m0 mM' M1 by linarith

  have "r4 * 5 \<le> 2 ^ 1023" using b4 M1 unfolding lim by linarith
  from times_const_error [OF r4(2) _ this, of c4]
  obtain r5 where r5: "num_mul (Finite c4 r4) (Finite False 5) = Finite c4 r5" "0 \<le> r5"
    "\<bar>signed c4 r5 - V4 * 5\<bar> \<le> unit_roundoff * \<bar>V4 * 5\<bar> + tiny"
    unfolding V4_def by auto
  define V5 where "V5 = signed c4 r5"
  have a5: "\<bar>V5\<bar> = r5" unfolding V5_def using r5(2) by (rule abs_signed)
  define A5 where "A5 = \<bar>V4 * 5\<bar>"
  have e5: "\<bar>V5 - V4 * 5\<bar> \<le> A5 / 9007199254740992 + tiny"
    using r5(3) unfolding V5_def u A5_def by simp
  have A5: "A5 \<le> 94 / 10 * m + 20" unfolding A5_def using B4 by (intro abs_leI) linarith+
  have u5: "V5 - V4 * 5 \<le> A5 / 9007199254740992 + tiny"
    and l5: "V4 * 5 - V5 \<le> A5 / 9007199254740992 + tiny" using e5 by linarith+
  have B5: "V5 \<le> 95 / 10 * m + 21" "- V5 \<le> 95 / 10 * m + 21"
    using u5 l5 A5 B4 m0 t by linarith+
  have b5: "r5 \<le> 26 * M" using a5 B5 m0 mM' M1 by linarith

  have "r5 / 9 \<le> 2 ^ 1023" using b5 M1 unfolding lim by linarith
  from divide_const_error [OF r5(2) _ this, of c4]
  obtain r6 where r6: "num_div (Finite c4 r5) (Finite False 9) = Finite c4 r6" "0 \<le> r6"
    "\<bar>signed c4 r6 - V5 / 9\<bar> \<le> unit_roundoff * \<bar>V5 / 9\<bar> + tiny"
    unfolding V5_def by auto
  define V6 where "V6 = signed c4 r6"
  define A6 where "A6 = \<bar>V5 / 9\<bar>"
  have e6: "\<bar>V6 - V5 / 9\<bar> \<le> A6 / 9007199254740992 + tiny"
    using r6(3) unfolding V6_def u A6_def by simp
  have A6: "A6 \<le> 11 / 10 * m + 3" unfolding A6_def using B5 m0 by (intro abs_leI) linarith+
  have u6: "V6 - V5 / 9 \<le> A6 / 9007199254740992 + tiny"
    and l6: "V5 / 9 - V6 \<le> A6 / 9007199254740992 + tiny" using e6 by linarith+
  have C: "convertToCelsius (Finite c3 r3) = Finite c4 r6"
    by (simp only: convertToCelsius_def r4(1) r5(1) r6(1))

  have up: "V6 - c \<le> m / 1125899906842624 + 1 / 140737488355328"
    using u1 u2 u3 u4 u5 u6 A1 A2 A3 A4 A5 A6 m0 t by linarith
  have lo: "c - V6 \<le> m / 1125899906842624 + 1 / 140737488355328"
    using l1 l2 l3 l4 l5 l6 A1 A2 A3 A4 A5 A6 m0 t by linarith
  from up lo have "\<bar>V6 - c\<bar> \<le> m / 1125899906842624 + 1 / 140737488355328"
    by (intro abs_leI) linarith+
  then have "\<bar>signed c4 r6 - signed a m\<bar> \<le> m / 2 ^ 50 + 1 / 2 ^ 47"
    unfolding V6_def c_def by simp
  with F C r6(2) show ?thesis by auto
qed


section \<open>The conversion to Fahrenheit\<close>

lemma freezing: "convertToFahrenheit (Finite False 0) = Finite False 32"
  by code_simp

lemma boiling: "convertToFahrenheit (Finite False 100) = Finite False 212"
  by code_simp

text \<open>
  C7, as the code has it. In binary64 arithmetic the conversion gives exactly 32 for 0
  and 212 for 100. For a finite Celsius value of magnitude at most \<open>2^1000\<close>, converting
  to Fahrenheit and back with \<open>(f - 32) * 5 / 9\<close> gives a finite value that differs
  from the original by at most \<open>|c| / 2^50 + 1 / 2^47\<close>.
\<close>

theorem C7_conversion_round_trip:
  "convertToFahrenheit (Finite False 0) = Finite False 32
   \<and> convertToFahrenheit (Finite False 100) = Finite False 212
   \<and> (0 \<le> m \<and> m \<le> 2 ^ 1000 \<longrightarrow>
        (\<exists>b r. convertToCelsius (convertToFahrenheit (Finite a m)) = Finite b r \<and> 0 \<le> r
           \<and> \<bar>signed b r - signed a m\<bar> \<le> m / 2 ^ 50 + 1 / 2 ^ 47))"
  using freezing boiling roundtrip_error [of m a] by blast

theorem C7_conversion_round_trip_witness:
  "(0::rat) \<le> 371 / 10 \<and> (371 / 10 :: rat) \<le> 2 ^ 1000
   \<and> (\<exists>b r. convertToCelsius (convertToFahrenheit (Finite False (371 / 10))) = Finite b r \<and> 0 \<le> r
         \<and> \<bar>signed b r - 371 / 10\<bar> \<le> (371 / 10) / 2 ^ 50 + 1 / 2 ^ 47)"
proof -
  have h: "(0::rat) \<le> 371 / 10 \<and> (371 / 10 :: rat) \<le> 2 ^ 1000"
    by simp
  have v: "signed False (371 / 10) = 371 / 10"
    by (simp add: signed_def)
  from h C7_conversion_round_trip [of "371 / 10" False]
  have "\<exists>b r. convertToCelsius (convertToFahrenheit (Finite False (371 / 10))) = Finite b r \<and> 0 \<le> r
         \<and> \<bar>signed b r - signed False (371 / 10)\<bar> \<le> (371 / 10) / 2 ^ 50 + 1 / 2 ^ 47"
    by blast
  with h show ?thesis unfolding v by blast
qed

text \<open>
  C7 as stated fails near the top of the number range: \<open>2^1023\<close> is a number, nine
  times it is beyond the largest one, so the conversion gives \<open>Infinity\<close>, and no way
  back from \<open>Infinity\<close> recovers the value.
\<close>

theorem C7_large_value_overflows:
  "convertToFahrenheit (Finite False (2 ^ 1023)) = Infinity False
   \<and> convertToCelsius (Infinity False) = Infinity False"
proof -
  have "(2::rat) ^ 1025 \<le> 2 ^ 1023 * 9" by simp
  then have "round_magnitude (2 ^ 1023 * 9) = None" by (rule round_magnitude_overflow)
  then have "convertToFahrenheit (Finite False (2 ^ 1023)) = Infinity False"
    by (simp add: convertToFahrenheit_def make_number_def)
  then show ?thesis
    by (simp add: convertToCelsius_def num_sub_def)
qed

end
